theory Spec2Isabelle
  imports Main
begin

section \<open>JavaScript values\<close>

text \<open>
  The query builder is written against \<open>any\<close>-typed values.  The model keeps the
  distinctions the builder observes: \<open>null\<close>, \<open>undefined\<close>, primitives, \<open>Date\<close>
  instances, arrays and keyed objects.  An object is the list of its own enumerable
  entries in the order \<open>Object.entries\<close> yields them.  Numbers are restricted to
  integers, and a \<open>Date\<close> is represented by the text \<open>String\<close> gives for it.
\<close>

datatype jsval =
    JNull
  | JUndefined
  | JBool bool
  | JNum int
  | JStr string
  | JDate string
  | JArr "jsval list"
  | JObj "(string \<times> jsval) list"

type_synonym jsobject = "(string \<times> jsval) list"

section \<open>Text helpers\<close>

text \<open>\<open>Array.prototype.join\<close> on an array of strings (a text is a list of characters).\<close>

fun join :: "'a list \<Rightarrow> 'a list list \<Rightarrow> 'a list" where
  "join sep [] = []"
| "join sep [x] = x"
| "join sep (x # y # ys) = x @ sep @ join sep (y # ys)"

text \<open>\<open>String.prototype.split\<close> with a one-character separator.\<close>

fun split_on :: "char \<Rightarrow> string \<Rightarrow> string list" where
  "split_on c [] = [[]]"
| "split_on c (x # xs) =
     (if x = c then [] # split_on c xs
      else (case split_on c xs of
              [] \<Rightarrow> [[x]]
            | p # ps \<Rightarrow> (x # p) # ps))"

definition digit :: "nat \<Rightarrow> char" where
  "digit d = ''0123456789'' ! d"

text \<open>Decimal text of a natural number, as a template literal renders \<open>values.length\<close>.\<close>

fun show_nat :: "nat \<Rightarrow> string" where
  "show_nat n = (if n < 10 then [digit n] else show_nat (n div 10) @ [digit (n mod 10)])"

declare show_nat.simps [simp del]

definition show_int :: "int \<Rightarrow> string" where
  "show_int i = (if i < 0 then ''-'' @ show_nat (nat (- i)) else show_nat (nat i))"

text \<open>\<open>String(v)\<close>; inside an array \<open>null\<close> and \<open>undefined\<close> render as the empty text.\<close>

fun js_String :: "jsval \<Rightarrow> string" where
  "js_String JNull = ''null''"
| "js_String JUndefined = ''undefined''"
| "js_String (JBool b) = (if b then ''true'' else ''false'')"
| "js_String (JNum i) = show_int i"
| "js_String (JStr s) = s"
| "js_String (JDate s) = s"
| "js_String (JArr xs) =
     join '','' (map (\<lambda>x. if x = JNull \<or> x = JUndefined then [] else js_String x) xs)"
| "js_String (JObj kvs) = ''[object Object]''"

text \<open>Property read \<open>row[key]\<close> on a keyed object: \<open>undefined\<close> when the key is absent.\<close>

definition lookup :: "jsobject \<Rightarrow> string \<Rightarrow> jsval" where
  "lookup row key = (case map_of row key of None \<Rightarrow> JUndefined | Some v \<Rightarrow> v)"

text \<open>Own properties of a value: the entries of an object, the indices and \<open>length\<close> of an array.\<close>

fun props :: "jsval \<Rightarrow> jsobject" where
  "props (JObj kvs) = kvs"
| "props (JArr xs) = zip (map show_nat [0..<length xs]) xs @ [(''length'', JNum (int (length xs)))]"
| "props v = []"

text \<open>\<open>key in ops\<close> and \<open>ops.key\<close> for the operator keys, none of which is inherited.\<close>

definition hasKey :: "string \<Rightarrow> jsval \<Rightarrow> bool" where
  "hasKey key ops = (map_of (props ops) key \<noteq> None)"

definition getProp :: "jsval \<Rightarrow> string \<Rightarrow> jsval" where
  "getProp ops key = lookup (props ops) key"

fun typeof_object :: "jsval \<Rightarrow> bool" where
  "typeof_object JNull = True"
| "typeof_object (JDate s) = True"
| "typeof_object (JArr xs) = True"
| "typeof_object (JObj kvs) = True"
| "typeof_object v = False"

fun instanceof_Date :: "jsval \<Rightarrow> bool" where
  "instanceof_Date (JDate s) = True"
| "instanceof_Date v = False"

section \<open>The statement state\<close>

datatype whereOperator =
    OpEq | OpNe | OpGt | OpLt | OpGe | OpLe | LIKE | ILIKE | IN | NOT_IN | IS | IS_NOT

fun opText :: "whereOperator \<Rightarrow> string" where
  "opText OpEq = ''=''"
| "opText OpNe = ''!=''"
| "opText OpGt = ''>''"
| "opText OpLt = ''<''"
| "opText OpGe = ''>=''"
| "opText OpLe = ''<=''"
| "opText LIKE = ''LIKE''"
| "opText ILIKE = ''ILIKE''"
| "opText IN = ''IN''"
| "opText NOT_IN = ''NOT IN''"
| "opText IS = ''IS''"
| "opText IS_NOT = ''IS NOT''"

datatype connective = AND | OR

fun connText :: "connective \<Rightarrow> string" where
  "connText AND = ''AND''"
| "connText OR = ''OR''"

record whereClause =
  c_type :: connective
  c_column :: string
  c_operator :: whereOperator
  c_value :: jsval

datatype joinType = INNER | LEFT | RIGHT | FULL

fun joinText :: "joinType \<Rightarrow> string" where
  "joinText INNER = ''INNER''"
| "joinText LEFT = ''LEFT''"
| "joinText RIGHT = ''RIGHT''"
| "joinText FULL = ''FULL''"

record joinClause =
  j_type :: joinType
  j_table :: string
  j_col1 :: string
  j_op :: string
  j_col2 :: string

datatype operation = SELECT | INSERT | UPDATE | DELETE

text \<open>The field \<open>_data\<close>: \<open>null\<close>, one record, or an array of records.\<close>

datatype payload = NoData | Row jsobject | Rows "jsobject list"

record builder =
  b_table :: string
  b_operation :: operation
  b_data :: payload
  b_select :: "string list"
  b_where :: "whereClause list"
  b_joins :: "joinClause list"
  b_limit :: "int option"
  b_offset :: "int option"
  b_returning :: bool

text \<open>The state the constructor leaves.\<close>

definition new_builder :: "string \<Rightarrow> builder" where
  "new_builder t = \<lparr> b_table = t, b_operation = SELECT, b_data = NoData, b_select = [],
     b_where = [], b_joins = [], b_limit = None, b_offset = None, b_returning = False \<rparr>"

section \<open>The fluent interface\<close>

definition insert_op :: "payload \<Rightarrow> builder \<Rightarrow> builder" where
  "insert_op d b = b\<lparr> b_operation := INSERT, b_data := d, b_returning := True \<rparr>"

definition update_op :: "payload \<Rightarrow> builder \<Rightarrow> builder" where
  "update_op d b = b\<lparr> b_operation := UPDATE, b_data := d, b_returning := True \<rparr>"

definition delete_op :: "builder \<Rightarrow> builder" where
  "delete_op b = b\<lparr> b_operation := DELETE, b_returning := True \<rparr>"

definition select_op :: "string list \<Rightarrow> builder \<Rightarrow> builder" where
  "select_op columns b = b\<lparr> b_select := columns \<rparr>"

definition addJoin :: "joinType \<Rightarrow> string \<Rightarrow> string \<Rightarrow> string \<Rightarrow> string \<Rightarrow> builder \<Rightarrow> builder" where
  "addJoin ty t col1 op col2 b =
     b\<lparr> b_joins := b_joins b @ [\<lparr> j_type = ty, j_table = t, j_col1 = col1, j_op = op, j_col2 = col2 \<rparr>] \<rparr>"

definition limit_op :: "int \<Rightarrow> builder \<Rightarrow> builder" where
  "limit_op n b = b\<lparr> b_limit := Some n \<rparr>"

definition offset_op :: "int \<Rightarrow> builder \<Rightarrow> builder" where
  "offset_op n b = b\<lparr> b_offset := Some n \<rparr>"

subsection \<open>\<open>_addWhere\<close>\<close>

definition mkClause :: "connective \<Rightarrow> string \<Rightarrow> whereOperator \<Rightarrow> jsval \<Rightarrow> whereClause" where
  "mkClause ty col op v = \<lparr> c_type = ty, c_column = col, c_operator = op, c_value = v \<rparr>"

text \<open>One \<open>if (key in ops) this._where.push(...)\<close> statement.\<close>

definition pushIfKey :: "connective \<Rightarrow> string \<Rightarrow> jsval \<Rightarrow> string \<Rightarrow> whereOperator
    \<Rightarrow> whereClause list \<Rightarrow> whereClause list" where
  "pushIfKey ty col ops key op w =
     (if hasKey key ops then w @ [mkClause ty col op (getProp ops key)] else w)"

text \<open>The body of the loop over \<open>Object.entries(conditions)\<close>.\<close>

definition addEntry :: "connective \<Rightarrow> whereClause list \<Rightarrow> string \<times> jsval \<Rightarrow> whereClause list" where
  "addEntry ty w entry =
     (let column = fst entry; val = snd entry in
      if val = JNull then w @ [mkClause ty column IS JNull]
      else if typeof_object val \<and> val \<noteq> JNull \<and> \<not> instanceof_Date val then
        (let w1 = pushIfKey ty column val ''in'' IN w;
             w2 = pushIfKey ty column val ''notIn'' NOT_IN w1;
             w3 = pushIfKey ty column val ''like'' LIKE w2;
             w4 = pushIfKey ty column val ''ilike'' ILIKE w3;
             w5 = pushIfKey ty column val ''gt'' OpGt w4;
             w6 = pushIfKey ty column val ''lt'' OpLt w5;
             w7 = pushIfKey ty column val ''gte'' OpGe w6;
             w8 = pushIfKey ty column val ''lte'' OpLe w7
         in pushIfKey ty column val ''not'' OpNe w8)
      else w @ [mkClause ty column OpEq val])"

definition addWhere :: "connective \<Rightarrow> jsobject \<Rightarrow> whereClause list \<Rightarrow> whereClause list" where
  "addWhere ty conditions w = foldl (addEntry ty) w conditions"

definition where_op :: "jsobject \<Rightarrow> builder \<Rightarrow> builder" where
  "where_op conditions b = b\<lparr> b_where := addWhere AND conditions (b_where b) \<rparr>"

definition orWhere :: "jsobject \<Rightarrow> builder \<Rightarrow> builder" where
  "orWhere conditions b = b\<lparr> b_where := addWhere OR conditions (b_where b) \<rparr>"

section \<open>Identifier quoting\<close>

abbreviation dq :: char where
  "dq \<equiv> CHR 0x22"

definition startsWith_dq :: "string \<Rightarrow> bool" where
  "startsWith_dq s = (case s of [] \<Rightarrow> False | c # cs \<Rightarrow> c = dq)"

text \<open>The method \<open>_quote\<close>.\<close>

definition quote :: "string \<Rightarrow> string" where
  "quote identifier =
     (if identifier = ''*'' then identifier
      else if CHR ''('' \<in> set identifier \<or> CHR '' '' \<in> set identifier \<or> startsWith_dq identifier
        then identifier
      else if CHR ''.'' \<in> set identifier
        then join ''.'' (map (\<lambda>part. [dq] @ part @ [dq]) (split_on CHR ''.'' identifier))
      else [dq] @ identifier @ [dq])"

section \<open>The SQL compiler\<close>

datatype error = Error string

text \<open>
  The local array \<open>values\<close> is threaded through the renderers: each takes the array as it
  stands and returns it with the values it pushed.  A placeholder is the text
  \<open>$\<close> followed by \<open>values.length\<close> read right after the push.
\<close>

definition placeholder :: "jsval list \<Rightarrow> string" where
  "placeholder values = ''$'' @ show_nat (length values)"

text \<open>A loop that pushes each element and collects its placeholder.\<close>

fun bindAll :: "jsval list \<Rightarrow> jsval list \<Rightarrow> string list \<times> jsval list" where
  "bindAll [] values = ([], values)"
| "bindAll (v # vs) values =
     (let values1 = values @ [v];
          p = placeholder values1;
          (ps, values2) = bindAll vs values1
      in (p # ps, values2))"

fun isNonEmptyArray :: "jsval \<Rightarrow> bool" where
  "isNonEmptyArray (JArr xs) = (xs \<noteq> [])"
| "isNonEmptyArray v = False"

fun elements :: "jsval \<Rightarrow> jsval list" where
  "elements (JArr xs) = xs"
| "elements v = []"

text \<open>
  The body of the callback of \<open>this._where.map\<close> up to the connective prefix.  The two
  revisions of the builder differ here only in the column text: the later one passes
  it through \<open>_quote\<close>, the earlier one uses it as it is; \<open>q\<close> is that function.
\<close>

definition condition :: "(string \<Rightarrow> string) \<Rightarrow> whereClause \<Rightarrow> jsval list \<Rightarrow> string \<times> jsval list" where
  "condition q clause values =
     (let col = q (c_column clause) in
      if c_operator clause = IN \<or> c_operator clause = NOT_IN then
        (if isNonEmptyArray (c_value clause) then
           (let (placeholders, values1) = bindAll (elements (c_value clause)) values
            in (col @ '' '' @ opText (c_operator clause) @ '' ('' @ join '', '' placeholders @ '')'',
                values1))
         else (if c_operator clause = IN then ''1=0'' else ''1=1'', values))
      else if c_operator clause = IS \<or> c_operator clause = IS_NOT then
        (let val = (if c_value clause = JNull then ''NULL'' else js_String (c_value clause))
         in (col @ '' '' @ opText (c_operator clause) @ '' '' @ val, values))
      else
        (let values1 = values @ [c_value clause]
         in (col @ '' '' @ opText (c_operator clause) @ '' '' @ placeholder values1, values1)))"

fun renderClauses :: "(string \<Rightarrow> string) \<Rightarrow> nat \<Rightarrow> whereClause list \<Rightarrow> jsval list
    \<Rightarrow> string list \<times> jsval list" where
  "renderClauses q index [] values = ([], values)"
| "renderClauses q index (clause # rest) values =
     (let (cond, values1) = condition q clause values;
          s = (if index = 0 then cond else connText (c_type clause) @ '' '' @ cond);
          (ss, values2) = renderClauses q (Suc index) rest values1
      in (s # ss, values2))"

definition buildWhere :: "(string \<Rightarrow> string) \<Rightarrow> whereClause list \<Rightarrow> jsval list \<Rightarrow> string \<times> jsval list" where
  "buildWhere q wh values =
     (if wh = [] then ([], values)
      else (let (clauses, values1) = renderClauses q 0 wh values
            in ('' WHERE '' @ join '' '' clauses, values1)))"

definition joinSQL :: "joinClause \<Rightarrow> string" where
  "joinSQL j = joinText (j_type j) @ '' JOIN '' @ quote (j_table j) @ '' ON '' @ quote (j_col1 j)
     @ '' '' @ j_op j @ '' '' @ quote (j_col2 j)"

definition buildJoins :: "joinClause list \<Rightarrow> string" where
  "buildJoins js = (if js = [] then [] else '' '' @ join '' '' (map joinSQL js))"

text \<open>\<open>Array.isArray(this._data) ? this._data : [this._data]\<close>, for a payload that is present.\<close>

fun dataIn :: "payload \<Rightarrow> jsobject list" where
  "dataIn (Rows rs) = rs"
| "dataIn (Row r) = [r]"
| "dataIn NoData = []"

text \<open>The two nested \<open>forEach\<close> iterations of INSERT: one tuple of placeholders per row.\<close>

fun bindRows :: "string list \<Rightarrow> jsobject list \<Rightarrow> jsval list \<Rightarrow> string list \<times> jsval list" where
  "bindRows keys [] values = ([], values)"
| "bindRows keys (row # rows) values =
     (let (rowPlaceholders, values1) = bindAll (map (lookup row) keys) values;
          t = ''('' @ join '', '' rowPlaceholders @ '')'';
          (ts, values2) = bindRows keys rows values1
      in (t # ts, values2))"

text \<open>
  \<open>Object.keys(this._data)\<close> and \<open>this._data[key]\<close> in UPDATE.  \<open>update\<close> is typed to take
  one record; on an array JavaScript enumerates the indices.
\<close>

fun dataEntries :: "payload \<Rightarrow> jsobject" where
  "dataEntries (Row r) = r"
| "dataEntries (Rows rs) = zip (map show_nat [0..<length rs]) (map JObj rs)"
| "dataEntries NoData = []"

fun setClauses :: "(string \<Rightarrow> string) \<Rightarrow> string list \<Rightarrow> jsobject \<Rightarrow> jsval list \<Rightarrow> string list \<times> jsval list" where
  "setClauses q [] d values = ([], values)"
| "setClauses q (key # keys) d values =
     (let values1 = values @ [lookup d key];
          s = q key @ '' = '' @ placeholder values1;
          (ss, values2) = setClauses q keys d values1
      in (s # ss, values2))"

definition limitSQL :: "builder \<Rightarrow> string" where
  "limitSQL b =
     (case b_limit b of None \<Rightarrow> [] | Some n \<Rightarrow> '' LIMIT '' @ show_int n)
     @ (case b_offset b of None \<Rightarrow> [] | Some n \<Rightarrow> '' OFFSET '' @ show_int n)"

definition returningAll :: "builder \<Rightarrow> string" where
  "returningAll b = (if b_returning b then '' RETURNING *'' else [])"

subsection \<open>\<open>toSQL\<close>, the revision with joins and quoting\<close>

definition toSQL :: "builder \<Rightarrow> error + (string \<times> jsval list)" where
  "toSQL b =
     (let columns = (if b_select b \<noteq> [] then join '', '' (map quote (b_select b)) else ''*'');
          tableUser = quote (b_table b)
      in case b_operation b of
        SELECT \<Rightarrow>
          (let (w, values) = buildWhere quote (b_where b) []
           in Inr (''SELECT '' @ columns @ '' FROM '' @ tableUser @ buildJoins (b_joins b) @ w
                   @ limitSQL b, values))
      | INSERT \<Rightarrow>
          if b_joins b \<noteq> [] then Inl (Error ''INSERT does not support JOINS'')
          else if b_data b = NoData then Inl (Error ''No data provided for INSERT'')
          else (case dataIn (b_data b) of
                  [] \<Rightarrow> Inl (Error ''Empty data array for INSERT'')
                | firstRow # rest \<Rightarrow>
                    (let keys = map fst firstRow in
                     if keys = [] then Inl (Error ''No columns to insert'')
                     else (let (placeHolders, values) = bindRows keys (dataIn (b_data b)) []
                           in Inr (''INSERT INTO '' @ tableUser @ '' ('' @ join '', '' (map quote keys)
                                   @ '') VALUES '' @ join '', '' placeHolders @ returningAll b, values))))
      | UPDATE \<Rightarrow>
          if b_joins b \<noteq> [] then
            Inl (Error ''UPDATE does not support JOINS directly (use subqueries or raw SQL)'')
          else if b_data b = NoData then Inl (Error ''No data provided for UPDATE'')
          else (let updateKeys = map fst (dataEntries (b_data b)) in
                if updateKeys = [] then Inl (Error ''No columns to update'')
                else (let (sets, values1) = setClauses quote updateKeys (dataEntries (b_data b)) [];
                          (w, values2) = buildWhere quote (b_where b) values1
                      in Inr (''UPDATE '' @ tableUser @ '' SET '' @ join '', '' sets @ w
                              @ returningAll b, values2)))
      | DELETE \<Rightarrow>
          if b_joins b \<noteq> [] then Inl (Error ''DELETE does not support JOINS directly'')
          else (let (w, values) = buildWhere quote (b_where b) []
                in Inr (''DELETE FROM '' @ tableUser @ w @ returningAll b, values)))"

subsection \<open>\<open>toSQL\<close>, the revision without joins and quoting\<close>

definition returningCols :: "builder \<Rightarrow> string \<Rightarrow> string" where
  "returningCols b columns = (if b_returning b then '' RETURNING '' @ columns else [])"

definition toSQL_plain :: "builder \<Rightarrow> error + (string \<times> jsval list)" where
  "toSQL_plain b =
     (let columns = (if b_select b \<noteq> [] then join '', '' (b_select b) else ''*'')
      in case b_operation b of
        SELECT \<Rightarrow>
          (let (w, values) = buildWhere (\<lambda>c. c) (b_where b) []
           in Inr (''SELECT '' @ columns @ '' FROM '' @ b_table b @ w @ limitSQL b, values))
      | INSERT \<Rightarrow>
          if b_data b = NoData then Inl (Error ''No data provided for INSERT'')
          else (case dataIn (b_data b) of
                  [] \<Rightarrow> Inl (Error ''Empty data array for INSERT'')
                | firstRow # rest \<Rightarrow>
                    (let keys = map fst firstRow in
                     if keys = [] then Inl (Error ''No columns to insert'')
                     else (let (placeHolders, values) = bindRows keys (dataIn (b_data b)) []
                           in Inr (''INSERT INTO '' @ b_table b @ '' ('' @ join '', '' keys
                                   @ '') VALUES '' @ join '', '' placeHolders
                                   @ returningCols b columns, values))))
      | UPDATE \<Rightarrow>
          if b_data b = NoData then Inl (Error ''No data provided for UPDATE'')
          else (let updateKeys = map fst (dataEntries (b_data b)) in
                if updateKeys = [] then Inl (Error ''No columns to update'')
                else (let (sets, values1) = setClauses (\<lambda>c. c) updateKeys (dataEntries (b_data b)) [];
                          (w, values2) = buildWhere (\<lambda>c. c) (b_where b) values1
                      in Inr (''UPDATE '' @ b_table b @ '' SET '' @ join '', '' sets @ w
                              @ returningCols b columns, values2)))
      | DELETE \<Rightarrow>
          (let (w, values) = buildWhere (\<lambda>c. c) (b_where b) []
           in Inr (''DELETE FROM '' @ b_table b @ w @ returningCols b columns, values)))"

section \<open>What \<open>_addWhere\<close> appends for one entry, in closed form\<close>

text \<open>The recognised operator keys in their check order, each with its operator.\<close>

definition operatorTable :: "(string \<times> whereOperator) list" where
  "operatorTable = [(''in'', IN), (''notIn'', NOT_IN), (''like'', LIKE), (''ilike'', ILIKE),
     (''gt'', OpGt), (''lt'', OpLt), (''gte'', OpGe), (''lte'', OpLe), (''not'', OpNe)]"

text \<open>The test that sends a value to the operator branch: any object but \<open>null\<close> and a \<open>Date\<close>.\<close>

definition isOperatorObject :: "jsval \<Rightarrow> bool" where
  "isOperatorObject val = (typeof_object val \<and> val \<noteq> JNull \<and> \<not> instanceof_Date val)"

definition clauseFor :: "connective \<Rightarrow> string \<Rightarrow> jsval \<Rightarrow> string \<times> whereOperator \<Rightarrow> whereClause list" where
  "clauseFor ty col ops ko =
     (if hasKey (fst ko) ops then [mkClause ty col (snd ko) (getProp ops (fst ko))] else [])"

text \<open>One clause per recognised key present, in table order.\<close>

definition operatorClauses :: "connective \<Rightarrow> string \<Rightarrow> jsval \<Rightarrow> whereClause list" where
  "operatorClauses ty col ops =
     map (\<lambda>(key, op). mkClause ty col op (getProp ops key))
       (filter (\<lambda>(key, op). hasKey key ops) operatorTable)"

definition expand :: "connective \<Rightarrow> string \<times> jsval \<Rightarrow> whereClause list" where
  "expand ty entry =
     (if snd entry = JNull then [mkClause ty (fst entry) IS JNull]
      else if isOperatorObject (snd entry) then operatorClauses ty (fst entry) (snd entry)
      else [mkClause ty (fst entry) OpEq (snd entry)])"

section \<open>Auxiliary notions for stating the rendering properties\<close>

text \<open>
  The condition texts of a clause sequence, without connectives: each clause is
  rendered against the values bound by the clauses before it.
\<close>

fun conditionTexts :: "(string \<Rightarrow> string) \<Rightarrow> whereClause list \<Rightarrow> jsval list \<Rightarrow> string list" where
  "conditionTexts q [] values = []"
| "conditionTexts q (clause # rest) values =
     fst (condition q clause values) # conditionTexts q rest (snd (condition q clause values))"

text \<open>The values one clause binds, in binding order.\<close>

definition clauseValues :: "whereClause \<Rightarrow> jsval list" where
  "clauseValues clause =
     (if c_operator clause = IN \<or> c_operator clause = NOT_IN then
        (if isNonEmptyArray (c_value clause) then elements (c_value clause) else [])
      else if c_operator clause = IS \<or> c_operator clause = IS_NOT then []
      else [c_value clause])"

section \<open>The build-time error conditions as the specification lists them\<close>

definition payloadError :: "builder \<Rightarrow> bool" where
  "payloadError b =
     ((b_operation b = INSERT \<and> b_data b = NoData)
      \<or> (b_operation b = INSERT \<and> b_data b = Rows [])
      \<or> (b_operation b = INSERT
          \<and> (case dataIn (b_data b) of [] \<Rightarrow> False | firstRow # rest \<Rightarrow> map fst firstRow = []))
      \<or> (b_operation b = UPDATE \<and> b_data b = NoData)
      \<or> (b_operation b = UPDATE \<and> map fst (dataEntries (b_data b)) = []))"

definition joinError :: "builder \<Rightarrow> bool" where
  "joinError b =
     ((b_operation b = INSERT \<or> b_operation b = UPDATE \<or> b_operation b = DELETE) \<and> b_joins b \<noteq> [])"

definition buildError :: "builder \<Rightarrow> bool" where
  "buildError b = (payloadError b \<or> joinError b)"

section \<open>The compiler with its placeholders traced\<close>

text \<open>
  To speak about the placeholders a statement contains, the renderers are repeated with
  the text kept in pieces: a piece is literal text, or a placeholder recorded with the
  number it shows and the value whose push produced it.  Each traced function follows
  its original line by line; \<open>render\<close> gives back the text.
\<close>

datatype piece = Lit string | Param nat jsval

fun renderPiece :: "piece \<Rightarrow> string" where
  "renderPiece (Lit s) = s"
| "renderPiece (Param n v) = ''$'' @ show_nat n"

definition render :: "piece list \<Rightarrow> string" where
  "render ps = concat (map renderPiece ps)"

text \<open>The placeholders of a text in order of occurrence, each with its number and value.\<close>

fun params :: "piece list \<Rightarrow> (nat \<times> jsval) list" where
  "params [] = []"
| "params (Lit s # ps) = params ps"
| "params (Param n v # ps) = (n, v) # params ps"

fun bindAll_trace :: "jsval list \<Rightarrow> jsval list \<Rightarrow> piece list list \<times> jsval list" where
  "bindAll_trace [] values = ([], values)"
| "bindAll_trace (v # vs) values =
     (let values1 = values @ [v];
          p = [Param (length values1) v];
          (ps, values2) = bindAll_trace vs values1
      in (p # ps, values2))"

definition condition_trace :: "(string \<Rightarrow> string) \<Rightarrow> whereClause \<Rightarrow> jsval list \<Rightarrow> piece list \<times> jsval list" where
  "condition_trace q clause values =
     (let col = q (c_column clause) in
      if c_operator clause = IN \<or> c_operator clause = NOT_IN then
        (if isNonEmptyArray (c_value clause) then
           (let (placeholders, values1) = bindAll_trace (elements (c_value clause)) values
            in ([Lit (col @ '' '' @ opText (c_operator clause) @ '' ('')]
                  @ join [Lit '', ''] placeholders @ [Lit '')''],
                values1))
         else ([Lit (if c_operator clause = IN then ''1=0'' else ''1=1'')], values))
      else if c_operator clause = IS \<or> c_operator clause = IS_NOT then
        (let val = (if c_value clause = JNull then ''NULL'' else js_String (c_value clause))
         in ([Lit (col @ '' '' @ opText (c_operator clause) @ '' '' @ val)], values))
      else
        (let values1 = values @ [c_value clause]
         in ([Lit (col @ '' '' @ opText (c_operator clause) @ '' ''),
              Param (length values1) (c_value clause)], values1)))"

fun renderClauses_trace :: "(string \<Rightarrow> string) \<Rightarrow> nat \<Rightarrow> whereClause list \<Rightarrow> jsval list
    \<Rightarrow> piece list list \<times> jsval list" where
  "renderClauses_trace q index [] values = ([], values)"
| "renderClauses_trace q index (clause # rest) values =
     (let (cond, values1) = condition_trace q clause values;
          s = (if index = 0 then cond else Lit (connText (c_type clause) @ '' '') # cond);
          (ss, values2) = renderClauses_trace q (Suc index) rest values1
      in (s # ss, values2))"

definition buildWhere_trace :: "(string \<Rightarrow> string) \<Rightarrow> whereClause list \<Rightarrow> jsval list
    \<Rightarrow> piece list \<times> jsval list" where
  "buildWhere_trace q wh values =
     (if wh = [] then ([], values)
      else (let (clauses, values1) = renderClauses_trace q 0 wh values
            in (Lit '' WHERE '' # join [Lit '' ''] clauses, values1)))"

fun bindRows_trace :: "string list \<Rightarrow> jsobject list \<Rightarrow> jsval list \<Rightarrow> piece list list \<times> jsval list" where
  "bindRows_trace keys [] values = ([], values)"
| "bindRows_trace keys (row # rows) values =
     (let (rowPlaceholders, values1) = bindAll_trace (map (lookup row) keys) values;
          t = [Lit ''(''] @ join [Lit '', ''] rowPlaceholders @ [Lit '')''];
          (ts, values2) = bindRows_trace keys rows values1
      in (t # ts, values2))"

fun setClauses_trace :: "(string \<Rightarrow> string) \<Rightarrow> string list \<Rightarrow> jsobject \<Rightarrow> jsval list
    \<Rightarrow> piece list list \<times> jsval list" where
  "setClauses_trace q [] d values = ([], values)"
| "setClauses_trace q (key # keys) d values =
     (let values1 = values @ [lookup d key];
          s = [Lit (q key @ '' = ''), Param (length values1) (lookup d key)];
          (ss, values2) = setClauses_trace q keys d values1
      in (s # ss, values2))"

definition toSQL_trace :: "builder \<Rightarrow> error + (piece list \<times> jsval list)" where
  "toSQL_trace b =
     (let columns = (if b_select b \<noteq> [] then join '', '' (map quote (b_select b)) else ''*'');
          tableUser = quote (b_table b)
      in case b_operation b of
        SELECT \<Rightarrow>
          (let (w, values) = buildWhere_trace quote (b_where b) []
           in Inr ([Lit (''SELECT '' @ columns @ '' FROM '' @ tableUser @ buildJoins (b_joins b))] @ w
                   @ [Lit (limitSQL b)], values))
      | INSERT \<Rightarrow>
          if b_joins b \<noteq> [] then Inl (Error ''INSERT does not support JOINS'')
          else if b_data b = NoData then Inl (Error ''No data provided for INSERT'')
          else (case dataIn (b_data b) of
                  [] \<Rightarrow> Inl (Error ''Empty data array for INSERT'')
                | firstRow # rest \<Rightarrow>
                    (let keys = map fst firstRow in
                     if keys = [] then Inl (Error ''No columns to insert'')
                     else (let (placeHolders, values) = bindRows_trace keys (dataIn (b_data b)) []
                           in Inr ([Lit (''INSERT INTO '' @ tableUser @ '' ('' @ join '', '' (map quote keys)
                                      @ '') VALUES '')]
                                   @ join [Lit '', ''] placeHolders @ [Lit (returningAll b)], values))))
      | UPDATE \<Rightarrow>
          if b_joins b \<noteq> [] then
            Inl (Error ''UPDATE does not support JOINS directly (use subqueries or raw SQL)'')
          else if b_data b = NoData then Inl (Error ''No data provided for UPDATE'')
          else (let updateKeys = map fst (dataEntries (b_data b)) in
                if updateKeys = [] then Inl (Error ''No columns to update'')
                else (let (sets, values1) = setClauses_trace quote updateKeys (dataEntries (b_data b)) [];
                          (w, values2) = buildWhere_trace quote (b_where b) values1
                      in Inr ([Lit (''UPDATE '' @ tableUser @ '' SET '')] @ join [Lit '', ''] sets @ w
                              @ [Lit (returningAll b)], values2)))
      | DELETE \<Rightarrow>
          if b_joins b \<noteq> [] then Inl (Error ''DELETE does not support JOINS directly'')
          else (let (w, values) = buildWhere_trace quote (b_where b) []
                in Inr ([Lit (''DELETE FROM '' @ tableUser)] @ w @ [Lit (returningAll b)], values)))"

definition toSQL_plain_trace :: "builder \<Rightarrow> error + (piece list \<times> jsval list)" where
  "toSQL_plain_trace b =
     (let columns = (if b_select b \<noteq> [] then join '', '' (b_select b) else ''*'')
      in case b_operation b of
        SELECT \<Rightarrow>
          (let (w, values) = buildWhere_trace (\<lambda>c. c) (b_where b) []
           in Inr ([Lit (''SELECT '' @ columns @ '' FROM '' @ b_table b)] @ w @ [Lit (limitSQL b)], values))
      | INSERT \<Rightarrow>
          if b_data b = NoData then Inl (Error ''No data provided for INSERT'')
          else (case dataIn (b_data b) of
                  [] \<Rightarrow> Inl (Error ''Empty data array for INSERT'')
                | firstRow # rest \<Rightarrow>
                    (let keys = map fst firstRow in
                     if keys = [] then Inl (Error ''No columns to insert'')
                     else (let (placeHolders, values) = bindRows_trace keys (dataIn (b_data b)) []
                           in Inr ([Lit (''INSERT INTO '' @ b_table b @ '' ('' @ join '', '' keys
                                      @ '') VALUES '')]
                                   @ join [Lit '', ''] placeHolders
                                   @ [Lit (returningCols b columns)], values))))
      | UPDATE \<Rightarrow>
          if b_data b = NoData then Inl (Error ''No data provided for UPDATE'')
          else (let updateKeys = map fst (dataEntries (b_data b)) in
                if updateKeys = [] then Inl (Error ''No columns to update'')
                else (let (sets, values1) = setClauses_trace (\<lambda>c. c) updateKeys (dataEntries (b_data b)) [];
                          (w, values2) = buildWhere_trace (\<lambda>c. c) (b_where b) values1
                      in Inr ([Lit (''UPDATE '' @ b_table b @ '' SET '')] @ join [Lit '', ''] sets @ w
                              @ [Lit (returningCols b columns)], values2)))
      | DELETE \<Rightarrow>
          (let (w, values) = buildWhere_trace (\<lambda>c. c) (b_where b) []
           in Inr ([Lit (''DELETE FROM '' @ b_table b)] @ w @ [Lit (returningCols b columns)], values)))"

text \<open>The values \<open>xs\<close> with the numbers they get when pushed after \<open>n\<close> earlier values.\<close>

definition numbered :: "nat \<Rightarrow> jsval list \<Rightarrow> (nat \<times> jsval) list" where
  "numbered n xs = zip [Suc n..<Suc (n + length xs)] xs"

section \<open>\<open>toSQL\<close> statement by statement\<close>

text \<open>
  For the effect of a call on the builder, the body of \<open>toSQL\<close> is written once more as
  the sequence of its statements over the state a call can change: the builder \<open>this\<close>
  together with the variables of the call, \<open>values\<close>, \<open>sql\<close>, \<open>placeHolders\<close> and
  \<open>rowPlaceholders\<close>.  Every assignment and every \<open>push\<close> of the source is one update
  of that state, a read of \<open>this._x\<close> is a read of the builder held in it, and a
  callback of \<open>map\<close> or \<open>forEach\<close> returns its value together with the state it leaves.
\<close>

record frame =
  f_this :: builder
  f_values :: "jsval list"
  f_sql :: string
  f_placeHolders :: "string list"
  f_rowPlaceholders :: "string list"

text \<open>\<open>values.push(v)\<close>\<close>

definition push_values :: "jsval \<Rightarrow> frame \<Rightarrow> frame" where
  "push_values v s = s\<lparr> f_values := f_values s @ [v] \<rparr>"

text \<open>\<open>sql += t\<close>\<close>

definition append_sql :: "string \<Rightarrow> frame \<Rightarrow> frame" where
  "append_sql t s = s\<lparr> f_sql := f_sql s @ t \<rparr>"

fun bindAll_st :: "jsval list \<Rightarrow> frame \<Rightarrow> string list \<times> frame" where
  "bindAll_st [] s = ([], s)"
| "bindAll_st (v # vs) s =
     (let s1 = push_values v s;
          p = placeholder (f_values s1);
          (ps, s2) = bindAll_st vs s1
      in (p # ps, s2))"

definition condition_st :: "(string \<Rightarrow> string) \<Rightarrow> whereClause \<Rightarrow> frame \<Rightarrow> string \<times> frame" where
  "condition_st q clause s =
     (let col = q (c_column clause) in
      if c_operator clause = IN \<or> c_operator clause = NOT_IN then
        (if isNonEmptyArray (c_value clause) then
           (let (placeholders, s1) = bindAll_st (elements (c_value clause)) s
            in (col @ '' '' @ opText (c_operator clause) @ '' ('' @ join '', '' placeholders @ '')'',
                s1))
         else (if c_operator clause = IN then ''1=0'' else ''1=1'', s))
      else if c_operator clause = IS \<or> c_operator clause = IS_NOT then
        (let val = (if c_value clause = JNull then ''NULL'' else js_String (c_value clause))
         in (col @ '' '' @ opText (c_operator clause) @ '' '' @ val, s))
      else
        (let s1 = push_values (c_value clause) s
         in (col @ '' '' @ opText (c_operator clause) @ '' '' @ placeholder (f_values s1), s1)))"

fun renderClauses_st :: "(string \<Rightarrow> string) \<Rightarrow> nat \<Rightarrow> whereClause list \<Rightarrow> frame
    \<Rightarrow> string list \<times> frame" where
  "renderClauses_st q index [] s = ([], s)"
| "renderClauses_st q index (clause # rest) s =
     (let (cond, s1) = condition_st q clause s;
          c = (if index = 0 then cond else connText (c_type clause) @ '' '' @ cond);
          (cs, s2) = renderClauses_st q (Suc index) rest s1
      in (c # cs, s2))"

definition buildWhere_st :: "(string \<Rightarrow> string) \<Rightarrow> frame \<Rightarrow> string \<times> frame" where
  "buildWhere_st q s =
     (if b_where (f_this s) = [] then ([], s)
      else (let (clauses, s1) = renderClauses_st q 0 (b_where (f_this s)) s
            in ('' WHERE '' @ join '' '' clauses, s1)))"

text \<open>The inner \<open>keys.forEach\<close> of INSERT: two pushes per key.\<close>

fun bindKeys_st :: "string list \<Rightarrow> jsobject \<Rightarrow> frame \<Rightarrow> frame" where
  "bindKeys_st [] row s = s"
| "bindKeys_st (key # keys) row s =
     (let s1 = push_values (lookup row key) s;
          s2 = s1\<lparr> f_rowPlaceholders := f_rowPlaceholders s1 @ [placeholder (f_values s1)] \<rparr>
      in bindKeys_st keys row s2)"

text \<open>The outer \<open>dataIn.forEach\<close> of INSERT.\<close>

fun bindRows_st :: "string list \<Rightarrow> jsobject list \<Rightarrow> frame \<Rightarrow> frame" where
  "bindRows_st keys [] s = s"
| "bindRows_st keys (row # rows) s =
     (let s1 = s\<lparr> f_rowPlaceholders := [] \<rparr>;
          s2 = bindKeys_st keys row s1;
          s3 = s2\<lparr> f_placeHolders :=
                 f_placeHolders s2 @ [''('' @ join '', '' (f_rowPlaceholders s2) @ '')''] \<rparr>
      in bindRows_st keys rows s3)"

text \<open>The callback of \<open>updateKeys.map\<close>, which reads \<open>this._data[key]\<close> at each key.\<close>

fun setClauses_st :: "(string \<Rightarrow> string) \<Rightarrow> string list \<Rightarrow> frame \<Rightarrow> string list \<times> frame" where
  "setClauses_st q [] s = ([], s)"
| "setClauses_st q (key # keys) s =
     (let s1 = push_values (lookup (dataEntries (b_data (f_this s))) key) s;
          c = q key @ '' = '' @ placeholder (f_values s1);
          (cs, s2) = setClauses_st q keys s1
      in (c # cs, s2))"

definition limit_st :: "frame \<Rightarrow> frame" where
  "limit_st s =
     (let s1 = (case b_limit (f_this s) of
                  None \<Rightarrow> s
                | Some n \<Rightarrow> append_sql ('' LIMIT '' @ show_int n) s)
      in case b_offset (f_this s1) of
           None \<Rightarrow> s1
         | Some n \<Rightarrow> append_sql ('' OFFSET '' @ show_int n) s1)"

definition returning_st :: "string \<Rightarrow> frame \<Rightarrow> frame" where
  "returning_st columns s =
     (if b_returning (f_this s) then append_sql ('' RETURNING '' @ columns) s else s)"

text \<open>The body of \<open>toSQL\<close> in the revision with joins and quoting: outcome and state at exit.\<close>

definition toSQL_body :: "frame \<Rightarrow> (error + (string \<times> jsval list)) \<times> frame" where
  "toSQL_body s0 =
     (let columns = (if b_select (f_this s0) \<noteq> [] then join '', '' (map quote (b_select (f_this s0)))
                     else ''*'');
          tableUser = quote (b_table (f_this s0));
          s1 = s0\<lparr> f_values := [] \<rparr>;
          s2 = s1\<lparr> f_sql := [] \<rparr>
      in case b_operation (f_this s2) of
        SELECT \<Rightarrow>
          (let s3 = s2\<lparr> f_sql := ''SELECT '' @ columns @ '' FROM '' @ tableUser \<rparr>;
               s4 = append_sql (buildJoins (b_joins (f_this s3))) s3;
               (w, s5) = buildWhere_st quote s4;
               s6 = append_sql w s5;
               s7 = limit_st s6
           in (Inr (f_sql s7, f_values s7), s7))
      | INSERT \<Rightarrow>
          if b_joins (f_this s2) \<noteq> [] then (Inl (Error ''INSERT does not support JOINS''), s2)
          else if b_data (f_this s2) = NoData then (Inl (Error ''No data provided for INSERT''), s2)
          else (case dataIn (b_data (f_this s2)) of
                  [] \<Rightarrow> (Inl (Error ''Empty data array for INSERT''), s2)
                | firstRow # rest \<Rightarrow>
                    (let keys = map fst firstRow in
                     if keys = [] then (Inl (Error ''No columns to insert''), s2)
                     else (let s3 = s2\<lparr> f_placeHolders := [] \<rparr>;
                               s4 = bindRows_st keys (firstRow # rest) s3;
                               s5 = s4\<lparr> f_sql := ''INSERT INTO '' @ tableUser @ '' (''
                                      @ join '', '' (map quote keys) @ '') VALUES ''
                                      @ join '', '' (f_placeHolders s4) \<rparr>;
                               s6 = returning_st ''*'' s5
                           in (Inr (f_sql s6, f_values s6), s6))))
      | UPDATE \<Rightarrow>
          if b_joins (f_this s2) \<noteq> [] then
            (Inl (Error ''UPDATE does not support JOINS directly (use subqueries or raw SQL)''), s2)
          else if b_data (f_this s2) = NoData then (Inl (Error ''No data provided for UPDATE''), s2)
          else (let updateKeys = map fst (dataEntries (b_data (f_this s2))) in
                if updateKeys = [] then (Inl (Error ''No columns to update''), s2)
                else (let (sets, s3) = setClauses_st quote updateKeys s2;
                          s4 = s3\<lparr> f_sql := ''UPDATE '' @ tableUser @ '' SET '' @ join '', '' sets \<rparr>;
                          (w, s5) = buildWhere_st quote s4;
                          s6 = append_sql w s5;
                          s7 = returning_st ''*'' s6
                      in (Inr (f_sql s7, f_values s7), s7)))
      | DELETE \<Rightarrow>
          if b_joins (f_this s2) \<noteq> [] then
            (Inl (Error ''DELETE does not support JOINS directly''), s2)
          else (let s3 = s2\<lparr> f_sql := ''DELETE FROM '' @ tableUser \<rparr>;
                    (w, s4) = buildWhere_st quote s3;
                    s5 = append_sql w s4;
                    s6 = returning_st ''*'' s5
                in (Inr (f_sql s6, f_values s6), s6)))"

text \<open>The body of \<open>toSQL\<close> in \<open>src/query/builder.ts\<close>.\<close>

definition toSQL_plain_body :: "frame \<Rightarrow> (error + (string \<times> jsval list)) \<times> frame" where
  "toSQL_plain_body s0 =
     (let columns = (if b_select (f_this s0) \<noteq> [] then join '', '' (b_select (f_this s0)) else ''*'');
          s1 = s0\<lparr> f_values := [] \<rparr>;
          s2 = s1\<lparr> f_sql := [] \<rparr>
      in case b_operation (f_this s2) of
        SELECT \<Rightarrow>
          (let s3 = s2\<lparr> f_sql := ''SELECT '' @ columns @ '' FROM '' @ b_table (f_this s2) \<rparr>;
               (w, s4) = buildWhere_st (\<lambda>c. c) s3;
               s5 = append_sql w s4;
               s6 = limit_st s5
           in (Inr (f_sql s6, f_values s6), s6))
      | INSERT \<Rightarrow>
          if b_data (f_this s2) = NoData then (Inl (Error ''No data provided for INSERT''), s2)
          else (case dataIn (b_data (f_this s2)) of
                  [] \<Rightarrow> (Inl (Error ''Empty data array for INSERT''), s2)
                | firstRow # rest \<Rightarrow>
                    (let keys = map fst firstRow in
                     if keys = [] then (Inl (Error ''No columns to insert''), s2)
                     else (let s3 = s2\<lparr> f_placeHolders := [] \<rparr>;
                               s4 = bindRows_st keys (firstRow # rest) s3;
                               s5 = s4\<lparr> f_sql := ''INSERT INTO '' @ b_table (f_this s4) @ '' (''
                                      @ join '', '' keys @ '') VALUES ''
                                      @ join '', '' (f_placeHolders s4) \<rparr>;
                               s6 = returning_st columns s5
                           in (Inr (f_sql s6, f_values s6), s6))))
      | UPDATE \<Rightarrow>
          if b_data (f_this s2) = NoData then (Inl (Error ''No data provided for UPDATE''), s2)
          else (let updateKeys = map fst (dataEntries (b_data (f_this s2))) in
                if updateKeys = [] then (Inl (Error ''No columns to update''), s2)
                else (let (sets, s3) = setClauses_st (\<lambda>c. c) updateKeys s2;
                          s4 = s3\<lparr> f_sql := ''UPDATE '' @ b_table (f_this s3) @ '' SET ''
                                 @ join '', '' sets \<rparr>;
                          (w, s5) = buildWhere_st (\<lambda>c. c) s4;
                          s6 = append_sql w s5;
                          s7 = returning_st columns s6
                      in (Inr (f_sql s7, f_values s7), s7)))
      | DELETE \<Rightarrow>
          (let s3 = s2\<lparr> f_sql := ''DELETE FROM '' @ b_table (f_this s2) \<rparr>;
               (w, s4) = buildWhere_st (\<lambda>c. c) s3;
               s5 = append_sql w s4;
               s6 = returning_st columns s5
           in (Inr (f_sql s6, f_values s6), s6)))"

text \<open>
  A call on the builder \<open>b\<close>: the body runs with \<open>this\<close> bound to \<open>b\<close> and fresh
  variables; the caller gets the outcome, and the builder is what the body leaves of it.
\<close>

definition enter :: "builder \<Rightarrow> frame" where
  "enter b = \<lparr> f_this = b, f_values = [], f_sql = [], f_placeHolders = [], f_rowPlaceholders = [] \<rparr>"

definition toSQL_call :: "builder \<Rightarrow> (error + (string \<times> jsval list)) \<times> builder" where
  "toSQL_call b = (fst (toSQL_body (enter b)), f_this (snd (toSQL_body (enter b))))"

definition toSQL_plain_call :: "builder \<Rightarrow> (error + (string \<times> jsval list)) \<times> builder" where
  "toSQL_plain_call b = (fst (toSQL_plain_body (enter b)), f_this (snd (toSQL_plain_body (enter b))))"

section \<open>Properties\<close>

subsection \<open>Filter expansion\<close>

lemma pushIfKey_clauseFor: "pushIfKey ty col ops key op w = w @ clauseFor ty col ops (key, op)"
  by (simp add: pushIfKey_def clauseFor_def)

lemma map_filter_concat: "map f (filter P xs) = concat (map (\<lambda>x. if P x then [f x] else []) xs)"
  by (induction xs) simp_all

lemma operatorClauses_concat:
  "operatorClauses ty col ops = concat (map (clauseFor ty col ops) operatorTable)"
  unfolding operatorClauses_def map_filter_concat
  by (rule arg_cong[where f=concat], rule map_cong) (auto simp: clauseFor_def)

lemma addEntry_objects:
  "(let w1 = pushIfKey ty column val ''in'' IN w;
        w2 = pushIfKey ty column val ''notIn'' NOT_IN w1;
        w3 = pushIfKey ty column val ''like'' LIKE w2;
        w4 = pushIfKey ty column val ''ilike'' ILIKE w3;
        w5 = pushIfKey ty column val ''gt'' OpGt w4;
        w6 = pushIfKey ty column val ''lt'' OpLt w5;
        w7 = pushIfKey ty column val ''gte'' OpGe w6;
        w8 = pushIfKey ty column val ''lte'' OpLe w7
    in pushIfKey ty column val ''not'' OpNe w8) = w @ operatorClauses ty column val"
  unfolding operatorClauses_concat Let_def pushIfKey_clauseFor operatorTable_def
  by simp

lemma addEntry_expand: "addEntry ty w entry = w @ expand ty entry"
  unfolding addEntry_def expand_def isOperatorObject_def Let_def[of "fst entry"] Let_def[of "snd entry"]
    addEntry_objects
  by simp

lemma foldl_addEntry: "foldl (addEntry ty) w conditions = w @ concat (map (expand ty) conditions)"
  by (induction conditions arbitrary: w) (simp_all add: addEntry_expand)

lemma addWhere_expand: "addWhere ty conditions w = w @ concat (map (expand ty) conditions)"
  by (simp add: addWhere_def foldl_addEntry)

lemma expand_type: "c \<in> set (expand ty entry) \<Longrightarrow> c_type c = ty"
  by (auto simp: expand_def operatorClauses_def mkClause_def split: if_splits)

subsection \<open>Placeholders\<close>

lemma bindAll_eq:
  "bindAll xs vs = (map (\<lambda>i. ''$'' @ show_nat (length vs + i)) [1..<Suc (length xs)], vs @ xs)"
proof (induction xs arbitrary: vs)
  case Nil
  show ?case by simp
next
  case (Cons x xs)
  have "[1..<Suc (Suc (length xs))] = 1 # map Suc [1..<Suc (length xs)]"
    by (simp add: upt_conv_Cons map_Suc_upt del: upt_Suc)
  then show ?case
    by (simp add: Cons placeholder_def comp_def del: upt_Suc)
qed

subsection \<open>Expansion of \<open>where\<close> and \<open>orWhere\<close> entries\<close>

text \<open>
  Claim C6.  The claim sends every entry whose value is neither \<open>null\<close> nor a keyed
  operator object to one \<open>=\<close> clause with the value as given, and the type
  \<open>WhereCondition\<close> documents a bare column value as equality.  The code does so for
  primitives and for a \<open>Date\<close>, which the guard of the operator branch exempts.  An array
  (the value of an array column) is not exempted: \<open>where({tags: ['a','b']})\<close> appends no
  clause at all, so the filter is lost, and a DELETE filtered that way compiles to a
  statement without \<open>WHERE\<close>.
\<close>

theorem where_array_filter_lost:
  "addWhere AND [(''tags'', JArr [JStr ''a'', JStr ''b''])] [] = []
   \<and> addWhere AND [(''tags'', JArr [JStr ''a'', JStr ''b''])] []
       \<noteq> [mkClause AND ''tags'' OpEq (JArr [JStr ''a'', JStr ''b''])]
   \<and> addWhere AND [(''at'', JDate ''2024-01-01'')] [] = [mkClause AND ''at'' OpEq (JDate ''2024-01-01'')]
   \<and> toSQL (where_op [(''tags'', JArr [JStr ''a'', JStr ''b''])] (delete_op (new_builder ''posts'')))
       = Inr (''DELETE FROM '' @ [dq] @ ''posts'' @ [dq] @ '' RETURNING *'', [])
   \<and> toSQL_plain (where_op [(''tags'', JArr [JStr ''a'', JStr ''b''])] (delete_op (new_builder ''posts'')))
       = Inr (''DELETE FROM posts RETURNING *'', [])"
  by code_simp

lemma expand_unrecognised:
  assumes "typeof_object val" and "val \<noteq> JNull" and "\<not> instanceof_Date val"
    and "\<forall>key \<in> set (map fst operatorTable). \<not> hasKey key val"
  shows "expand ty (col, val) = []"
proof -
  have "filter (\<lambda>(key, op). hasKey key val) operatorTable = []"
    using assms(4) by (auto simp: filter_empty_conv)
  then show ?thesis
    using assms(1-3) by (simp add: expand_def isOperatorObject_def operatorClauses_def)
qed

lemma addWhere_drop:
  assumes "expand ty (col, val) = []"
  shows "addWhere ty (pre @ (col, val) # post) w = addWhere ty (pre @ post) w"
  using assms by (simp add: addWhere_expand)

text \<open>
  Claim C10.  An entry whose value is a non-null object, not a \<open>Date\<close>, with none of the
  nine operator keys appends no clause: the filter list, and with it the compiled text
  and parameter list of either revision, are those of the conditions without that entry.
\<close>

theorem unrecognised_object_dropped:
  assumes "typeof_object val" and "val \<noteq> JNull" and "\<not> instanceof_Date val"
    and "\<forall>key \<in> set (map fst operatorTable). \<not> hasKey key val"
  shows "addWhere ty (pre @ (col, val) # post) w = addWhere ty (pre @ post) w
     \<and> toSQL (where_op (pre @ (col, val) # post) b) = toSQL (where_op (pre @ post) b)
     \<and> toSQL (orWhere (pre @ (col, val) # post) b) = toSQL (orWhere (pre @ post) b)
     \<and> toSQL_plain (where_op (pre @ (col, val) # post) b) = toSQL_plain (where_op (pre @ post) b)
     \<and> toSQL_plain (orWhere (pre @ (col, val) # post) b) = toSQL_plain (orWhere (pre @ post) b)"
proof -
  have e: "expand ty' (col, val) = []" for ty'
    using assms by (rule expand_unrecognised)
  have a: "addWhere ty' (pre @ (col, val) # post) w' = addWhere ty' (pre @ post) w'" for ty' w'
    using e by (rule addWhere_drop)
  show ?thesis
    by (simp add: a where_op_def orWhere_def)
qed

theorem unrecognised_object_dropped_witness:
  "typeof_object (JArr [JStr ''a'', JStr ''b'']) \<and> JArr [JStr ''a'', JStr ''b''] \<noteq> JNull
   \<and> \<not> instanceof_Date (JArr [JStr ''a'', JStr ''b''])
   \<and> list_all (\<lambda>key. \<not> hasKey key (JArr [JStr ''a'', JStr ''b''])) (map fst operatorTable)
   \<and> toSQL_plain (where_op ([(''id'', JNum 1)] @ (''tags'', JArr [JStr ''a'', JStr ''b'']) # [])
         (new_builder ''t''))
       = toSQL_plain (where_op ([(''id'', JNum 1)] @ []) (new_builder ''t''))"
proof -
  have h1: "typeof_object (JArr [JStr ''a'', JStr ''b''])" by simp
  have h2: "JArr [JStr ''a'', JStr ''b''] \<noteq> JNull" by simp
  have h3: "\<not> instanceof_Date (JArr [JStr ''a'', JStr ''b''])" by simp
  have h4: "\<forall>key \<in> set (map fst operatorTable). \<not> hasKey key (JArr [JStr ''a'', JStr ''b''])"
    by code_simp
  have h4': "list_all (\<lambda>key. \<not> hasKey key (JArr [JStr ''a'', JStr ''b''])) (map fst operatorTable)"
    using h4 by (simp only: list_all_iff)
  have c: "toSQL_plain (where_op ([(''id'', JNum 1)] @ (''tags'', JArr [JStr ''a'', JStr ''b'']) # [])
         (new_builder ''t''))
       = toSQL_plain (where_op ([(''id'', JNum 1)] @ []) (new_builder ''t''))"
    using unrecognised_object_dropped [OF h1 h2 h3 h4] by blast
  show ?thesis
    by (intro conjI h1 h2 h3 h4' c)
qed

subsection \<open>Rendering of the filter sequence\<close>

lemma join_Cons: "join sep (x # ys) = x @ concat (map (\<lambda>y. sep @ y) ys)"
  by (induction ys arbitrary: x) simp_all

lemma condition_values: "snd (condition q c vs) = vs @ clauseValues c"
  by (simp add: condition_def clauseValues_def bindAll_eq Let_def split_beta del: upt_Suc)

lemma renderClauses_values: "snd (renderClauses q i cs vs) = vs @ concat (map clauseValues cs)"
  by (induction cs arbitrary: i vs) (simp_all add: split_beta Let_def condition_values)

lemma renderClauses_Suc:
  "fst (renderClauses q (Suc i) cs vs)
     = map2 (\<lambda>d t. connText (c_type d) @ '' '' @ t) cs (conditionTexts q cs vs)"
proof (induction cs arbitrary: i vs)
  case Nil
  show ?case by simp
next
  case (Cons c cs)
  show ?case by (simp add: split_beta Let_def Cons)
qed

lemma buildWhere_text:
  "fst (buildWhere q (c # cs) vs) = '' WHERE '' @ fst (condition q c vs)
     @ concat (map2 (\<lambda>d t. '' '' @ connText (c_type d) @ '' '' @ t) cs
         (conditionTexts q cs (snd (condition q c vs))))"
  by (simp add: buildWhere_def split_beta Let_def renderClauses_Suc join_Cons map_zip_map comp_def
      split_def del: append.simps)

lemma buildWhere_values: "snd (buildWhere q cs vs) = vs @ concat (map clauseValues cs)"
  by (simp add: buildWhere_def split_beta Let_def renderClauses_values)

lemma where_null_plain:
  "toSQL_plain (where_op [(x, JNull)] (new_builder t))
     = Inr (''SELECT * FROM '' @ t @ '' WHERE '' @ x @ '' IS NULL'', [])"
  by (simp add: toSQL_plain_def where_op_def new_builder_def addWhere_expand expand_def buildWhere_def
      condition_def mkClause_def limitSQL_def)

lemma where_null_quoted:
  "toSQL (where_op [(x, JNull)] (new_builder t))
     = Inr (''SELECT * FROM '' @ quote t @ '' WHERE '' @ quote x @ '' IS NULL'', [])"
  by (simp add: toSQL_def where_op_def new_builder_def addWhere_expand expand_def buildWhere_def
      condition_def mkClause_def limitSQL_def buildJoins_def)

text \<open>
  Claim C3.  For a clause with operator \<open>IN\<close> or \<open>NOT IN\<close> whose value is an array: when
  the array is non-empty the text is the column, the operator and a parenthesised list
  of one placeholder per element, numbered onward from the values already bound, and
  the elements are appended to the values in array order; when it is empty the text is
  \<open>1=0\<close> for \<open>IN\<close> and \<open>1=1\<close> for \<open>NOT IN\<close> and nothing is bound.  \<open>condition\<close> has no
  failing outcome, so the empty array is not an error.  \<open>q\<close> is the column quoting of
  either revision.
\<close>

theorem in_clause_rendering:
  assumes "c_operator c = IN \<or> c_operator c = NOT_IN" and "c_value c = JArr xs"
  shows "condition q c vs =
     (if xs = [] then (if c_operator c = IN then ''1=0'' else ''1=1'', vs)
      else (q (c_column c) @ '' '' @ opText (c_operator c) @ '' (''
              @ join '', '' (map (\<lambda>i. ''$'' @ show_nat (length vs + i)) [1..<Suc (length xs)]) @ '')'',
            vs @ xs))"
  using assms by (auto simp: condition_def bindAll_eq Let_def simp del: upt_Suc)

theorem in_clause_rendering_witness:
  "condition (\<lambda>c. c) (mkClause AND ''status'' IN (JArr [JStr ''a'', JStr ''b''])) []
     = (''status IN ($1, $2)'', [JStr ''a'', JStr ''b''])
   \<and> condition (\<lambda>c. c) (mkClause AND ''status'' IN (JArr [])) [JNum 7] = (''1=0'', [JNum 7])
   \<and> condition (\<lambda>c. c) (mkClause AND ''status'' NOT_IN (JArr [])) [JNum 7] = (''1=1'', [JNum 7])
   \<and> toSQL_plain (where_op [(''status'', JObj [(''in'', JArr [JStr ''a'', JStr ''b''])])] (new_builder ''t''))
       = Inr (''SELECT * FROM t WHERE status IN ($1, $2)'', [JStr ''a'', JStr ''b''])
   \<and> toSQL_plain (where_op [(''status'', JObj [(''in'', JArr [])])] (new_builder ''t''))
       = Inr (''SELECT * FROM t WHERE 1=0'', [])"
proof -
  have a: "condition (\<lambda>c. c) (mkClause AND ''status'' IN (JArr [JStr ''a'', JStr ''b''])) []
     = (''status IN ($1, $2)'', [JStr ''a'', JStr ''b''])"
    using in_clause_rendering [of "mkClause AND ''status'' IN (JArr [JStr ''a'', JStr ''b''])"
        "[JStr ''a'', JStr ''b'']" "\<lambda>c. c" "[]"]
    by (simp add: mkClause_def show_nat.simps digit_def)
  have b: "condition (\<lambda>c. c) (mkClause AND ''status'' IN (JArr [])) [JNum 7] = (''1=0'', [JNum 7])"
    using in_clause_rendering [of "mkClause AND ''status'' IN (JArr [])" "[]" "\<lambda>c. c" "[JNum 7]"]
    by (simp add: mkClause_def)
  have c: "condition (\<lambda>c. c) (mkClause AND ''status'' NOT_IN (JArr [])) [JNum 7] = (''1=1'', [JNum 7])"
    using in_clause_rendering [of "mkClause AND ''status'' NOT_IN (JArr [])" "[]" "\<lambda>c. c" "[JNum 7]"]
    by (simp add: mkClause_def)
  have d: "toSQL_plain (where_op [(''status'', JObj [(''in'', JArr [JStr ''a'', JStr ''b''])])] (new_builder ''t''))
       = Inr (''SELECT * FROM t WHERE status IN ($1, $2)'', [JStr ''a'', JStr ''b''])"
    by code_simp
  have e: "toSQL_plain (where_op [(''status'', JObj [(''in'', JArr [])])] (new_builder ''t''))
       = Inr (''SELECT * FROM t WHERE 1=0'', [])"
    by code_simp
  show ?thesis by (intro conjI a b c d e)
qed

text \<open>
  Claim C8.  A clause with operator \<open>IS\<close> or \<open>IS NOT\<close> renders \<open>NULL\<close> for the value
  \<open>null\<close> and the stringified value otherwise, directly in the text, and leaves the
  values as they were.  \<open>where({x: null})\<close> on a fresh SELECT compiles to
  \<open>SELECT * FROM t WHERE x IS NULL\<close> with no values (with table and column quoted in
  the later revision).
\<close>

theorem is_clause_rendering:
  assumes "c_operator c = IS \<or> c_operator c = IS_NOT"
  shows "condition q c vs =
     (q (c_column c) @ '' '' @ opText (c_operator c) @ '' ''
        @ (if c_value c = JNull then ''NULL'' else js_String (c_value c)), vs)
   \<and> toSQL_plain (where_op [(x, JNull)] (new_builder t))
       = Inr (''SELECT * FROM '' @ t @ '' WHERE '' @ x @ '' IS NULL'', [])
   \<and> toSQL (where_op [(x, JNull)] (new_builder t))
       = Inr (''SELECT * FROM '' @ quote t @ '' WHERE '' @ quote x @ '' IS NULL'', [])"
proof -
  have "condition q c vs =
     (q (c_column c) @ '' '' @ opText (c_operator c) @ '' ''
        @ (if c_value c = JNull then ''NULL'' else js_String (c_value c)), vs)"
    using assms by (auto simp: condition_def Let_def)
  then show ?thesis
    by (simp only: where_null_plain where_null_quoted simp_thms)
qed

theorem is_clause_rendering_witness:
  "condition (\<lambda>c. c) (mkClause AND ''x'' IS JNull) [JNum 7] = (''x IS NULL'', [JNum 7])
   \<and> condition (\<lambda>c. c) (mkClause OR ''x'' IS_NOT (JBool True)) [JNum 7] = (''x IS NOT true'', [JNum 7])
   \<and> toSQL_plain (where_op [(''x'', JNull)] (new_builder ''t'')) = Inr (''SELECT * FROM t WHERE x IS NULL'', [])"
proof -
  have a: "condition (\<lambda>c. c) (mkClause AND ''x'' IS JNull) [JNum 7] = (''x IS NULL'', [JNum 7])"
    using is_clause_rendering [of "mkClause AND ''x'' IS JNull" "\<lambda>c. c" "[JNum 7]"]
    by (simp add: mkClause_def)
  have b: "condition (\<lambda>c. c) (mkClause OR ''x'' IS_NOT (JBool True)) [JNum 7] = (''x IS NOT true'', [JNum 7])"
    using is_clause_rendering [of "mkClause OR ''x'' IS_NOT (JBool True)" "\<lambda>c. c" "[JNum 7]"]
    by (simp add: mkClause_def)
  have c: "toSQL_plain (where_op [(''x'', JNull)] (new_builder ''t'')) = Inr (''SELECT * FROM t WHERE x IS NULL'', [])"
    using is_clause_rendering [of "mkClause AND ''x'' IS JNull" "\<lambda>c. c" "[]" "''x''" "''t''"]
    by (simp add: mkClause_def)
  show ?thesis by (intro conjI a b c)
qed

lemma condition_type_irrelevant: "condition q (c\<lparr>c_type := t\<rparr>) vs = condition q c vs"
  by (simp add: condition_def Let_def cong: if_cong)

lemma buildWhere_first_type: "buildWhere q (c\<lparr>c_type := t\<rparr> # cs) vs = buildWhere q (c # cs) vs"
  by (simp add: buildWhere_def condition_type_irrelevant)

text \<open>
  Claim C7.  The clauses \<open>where\<close> and \<open>orWhere\<close> append all carry the connective of the
  call, \<open>AND\<close> for \<open>where\<close> and \<open>OR\<close> for \<open>orWhere\<close>, after the clauses already stored.
  The rendered filter is \<open>WHERE\<close>, the condition of the first clause with no connective,
  and then for every later clause a space, its own connective, a space and its
  condition: a flat chain in clause order, to which the renderer adds no parenthesis.
  The connective stored on the first clause does not influence the outcome.
\<close>

theorem connective_chain:
  "take (length w) (addWhere ty conds w) = w
   \<and> (\<forall>c \<in> set (drop (length w) (addWhere ty conds w)). c_type c = ty)
   \<and> b_where (where_op conds b) = addWhere AND conds (b_where b)
   \<and> b_where (orWhere conds b) = addWhere OR conds (b_where b)
   \<and> fst (buildWhere q (c # cs) vs)
       = '' WHERE '' @ fst (condition q c vs)
         @ concat (map2 (\<lambda>d t. '' '' @ connText (c_type d) @ '' '' @ t) cs
             (conditionTexts q cs (snd (condition q c vs))))
   \<and> buildWhere q (c\<lparr>c_type := t\<rparr> # cs) vs = buildWhere q (c # cs) vs"
proof -
  have a: "take (length w) (addWhere ty conds w) = w"
    by (simp add: addWhere_expand)
  have b: "\<forall>c \<in> set (drop (length w) (addWhere ty conds w)). c_type c = ty"
    by (auto simp: addWhere_expand dest: expand_type)
  show ?thesis
    using a b by (simp only: buildWhere_text buildWhere_first_type where_op_def orWhere_def simp_thms)
      simp
qed

theorem connective_chain_witness:
  "fst (buildWhere (\<lambda>c. c)
      (mkClause OR ''a'' OpGt (JNum 1) # [mkClause AND ''b'' OpEq (JNum 2), mkClause OR ''c'' OpLt (JNum 3)]) [])
     = '' WHERE a > $1 AND b = $2 OR c < $3''
   \<and> toSQL_plain (orWhere [(''name'', JStr ''Doe'')]
         (where_op [(''age'', JObj [(''gt'', JNum 18), (''lte'', JNum 60)])] (new_builder ''t'')))
       = Inr (''SELECT * FROM t WHERE age > $1 AND age <= $2 OR name = $3'',
              [JNum 18, JNum 60, JStr ''Doe''])"
proof -
  have a: "fst (buildWhere (\<lambda>c. c)
      (mkClause OR ''a'' OpGt (JNum 1) # [mkClause AND ''b'' OpEq (JNum 2), mkClause OR ''c'' OpLt (JNum 3)]) [])
     = '' WHERE a > $1 AND b = $2 OR c < $3''"
    using connective_chain [where w = "[]" and ty = AND and conds = "[]" and b = "new_builder ''t''"
        and q = "\<lambda>c. c" and c = "mkClause OR ''a'' OpGt (JNum 1)"
        and cs = "[mkClause AND ''b'' OpEq (JNum 2), mkClause OR ''c'' OpLt (JNum 3)]"
        and vs = "[]" and t = AND]
    by (simp add: mkClause_def condition_def placeholder_def show_nat.simps digit_def)
  have b: "toSQL_plain (orWhere [(''name'', JStr ''Doe'')]
         (where_op [(''age'', JObj [(''gt'', JNum 18), (''lte'', JNum 60)])] (new_builder ''t'')))
       = Inr (''SELECT * FROM t WHERE age > $1 AND age <= $2 OR name = $3'',
              [JNum 18, JNum 60, JStr ''Doe''])"
    by code_simp
  show ?thesis by (intro conjI a b)
qed

subsection \<open>Build-time errors\<close>

lemma toSQL_select: "b_operation b = SELECT \<Longrightarrow> \<exists>sql values. toSQL b = Inr (sql, values)"
  by (simp add: toSQL_def split_beta Let_def)

lemma toSQL_delete:
  "b_operation b = DELETE \<Longrightarrow> (\<exists>e. toSQL b = Inl e) = (b_joins b \<noteq> [])"
  by (simp add: toSQL_def split_beta Let_def)

lemma toSQL_update:
  "b_operation b = UPDATE \<Longrightarrow>
     (\<exists>e. toSQL b = Inl e) = (b_joins b \<noteq> [] \<or> b_data b = NoData \<or> map fst (dataEntries (b_data b)) = [])"
  by (simp add: toSQL_def split_beta Let_def)

lemma toSQL_insert:
  "b_operation b = INSERT \<Longrightarrow>
     (\<exists>e. toSQL b = Inl e) = (b_joins b \<noteq> [] \<or> b_data b = NoData \<or> b_data b = Rows []
        \<or> (case dataIn (b_data b) of [] \<Rightarrow> False | firstRow # rest \<Rightarrow> map fst firstRow = []))"
  by (cases "b_data b") (auto simp: toSQL_def split_beta Let_def split: list.splits)

lemma toSQL_error_iff: "(\<exists>e. toSQL b = Inl e) = buildError b"
proof (cases "b_operation b")
  case SELECT
  then show ?thesis using toSQL_select [OF SELECT]
    by (auto simp: buildError_def payloadError_def joinError_def)
next
  case INSERT
  then show ?thesis using toSQL_insert [OF INSERT]
    by (auto simp: buildError_def payloadError_def joinError_def)
next
  case UPDATE
  then show ?thesis using toSQL_update [OF UPDATE]
    by (auto simp: buildError_def payloadError_def joinError_def)
next
  case DELETE
  then show ?thesis using toSQL_delete [OF DELETE]
    by (auto simp: buildError_def payloadError_def joinError_def)
qed

lemma toSQL_plain_error_iff: "(\<exists>e. toSQL_plain b = Inl e) = payloadError b"
proof (cases "b_operation b")
  case SELECT
  then show ?thesis by (simp add: toSQL_plain_def payloadError_def split_beta Let_def)
next
  case INSERT
  then show ?thesis
    by (cases "b_data b") (auto simp: toSQL_plain_def payloadError_def split_beta Let_def split: list.splits)
next
  case UPDATE
  then show ?thesis by (simp add: toSQL_plain_def payloadError_def split_beta Let_def)
next
  case DELETE
  then show ?thesis by (simp add: toSQL_plain_def payloadError_def split_beta Let_def)
qed

lemma result_cases: "(\<exists>sql values. r = Inr (sql, values)) = (\<not> (\<exists>e. r = Inl e))"
  by (cases r) auto

text \<open>
  Claim C2.  \<open>toSQL\<close> raises exactly when one of the listed conditions holds: INSERT
  with an absent payload, with an empty array, or with a first record without keys;
  UPDATE with an absent payload or a payload without keys; a join on INSERT, UPDATE or
  DELETE.  In every other case it returns a text with its values.  The outcome is either
  the error alone or the complete result: an error carries no text and no values.  The
  earlier revision, which has no joins, raises exactly on the payload conditions.
\<close>

theorem toSQL_raises_iff:
  "(\<exists>e. toSQL b = Inl e) = buildError b
   \<and> (\<exists>sql values. toSQL b = Inr (sql, values)) = (\<not> buildError b)
   \<and> (\<exists>e. toSQL_plain b = Inl e) = payloadError b
   \<and> (\<exists>sql values. toSQL_plain b = Inr (sql, values)) = (\<not> payloadError b)"
  by (simp only: result_cases toSQL_error_iff toSQL_plain_error_iff simp_thms)

theorem toSQL_raises_iff_witness:
  "(\<exists>e. toSQL (insert_op (Rows []) (new_builder ''t'')) = Inl e)
   \<and> (\<exists>e. toSQL (addJoin INNER ''u'' ''t.id'' ''='' ''u.id'' (delete_op (new_builder ''t''))) = Inl e)
   \<and> (\<exists>sql values. toSQL (update_op (Row [(''a'', JNum 1)]) (new_builder ''t'')) = Inr (sql, values))"
proof -
  have a: "buildError (insert_op (Rows []) (new_builder ''t''))"
    by (simp add: buildError_def payloadError_def insert_op_def new_builder_def)
  have b: "buildError (addJoin INNER ''u'' ''t.id'' ''='' ''u.id'' (delete_op (new_builder ''t'')))"
    by (simp add: buildError_def joinError_def addJoin_def delete_op_def new_builder_def)
  have c: "\<not> buildError (update_op (Row [(''a'', JNum 1)]) (new_builder ''t''))"
    by (simp add: buildError_def payloadError_def joinError_def update_op_def new_builder_def)
  show ?thesis
    using a b c toSQL_raises_iff [of "insert_op (Rows []) (new_builder ''t'')"]
      toSQL_raises_iff [of "addJoin INNER ''u'' ''t.id'' ''='' ''u.id'' (delete_op (new_builder ''t''))"]
      toSQL_raises_iff [of "update_op (Row [(''a'', JNum 1)]) (new_builder ''t'')"]
    by blast
qed

subsection \<open>INSERT\<close>

lemma upt_0_Suc_Cons: "[0..<Suc n] = 0 # map Suc [0..<n]"
  by (simp add: upt_conv_Cons map_Suc_upt del: upt_Suc)

lemma bindRows_eq:
  "bindRows keys rows vs =
     (map (\<lambda>i. ''('' @ join '', ''
              (map (\<lambda>j. ''$'' @ show_nat (length vs + i * length keys + j)) [1..<Suc (length keys)])
            @ '')'') [0..<length rows],
      vs @ concat (map (\<lambda>row. map (lookup row) keys) rows))"
proof (induction rows arbitrary: vs)
  case Nil
  show ?case by simp
next
  case (Cons row rows)
  have arith: "length vs + length keys + i * length keys + j = length vs + Suc i * length keys + j"
    for i j by simp
  show ?case
    by (simp add: bindAll_eq Cons upt_0_Suc_Cons comp_def arith del: upt_Suc mult_Suc)
qed

lemma toSQL_insert_text:
  assumes "b_operation b = INSERT" and "b_joins b = []"
    and "dataIn (b_data b) = firstRow # rest" and "firstRow \<noteq> []"
  shows "toSQL b =
     Inr (''INSERT INTO '' @ quote (b_table b)
            @ '' ('' @ join '', '' (map quote (map fst firstRow)) @ '') VALUES ''
            @ join '', ''
                (map (\<lambda>i. ''('' @ join '', ''
                         (map (\<lambda>j. ''$'' @ show_nat (i * length firstRow + j)) [1..<Suc (length firstRow)])
                       @ '')'') [0..<Suc (length rest)])
            @ (if b_returning b then '' RETURNING *'' else []),
          concat (map (\<lambda>row. map (lookup row) (map fst firstRow)) (firstRow # rest)))"
proof -
  have d: "b_data b \<noteq> NoData"
    using assms(3) by auto
  show ?thesis
    using assms d
    by (simp add: toSQL_def bindRows_eq returningAll_def del: upt_Suc)
qed

lemma plain_insert_text:
  assumes "b_operation b = INSERT" and "dataIn (b_data b) = firstRow # rest" and "firstRow \<noteq> []"
  shows "toSQL_plain b =
     Inr (''INSERT INTO '' @ b_table b
            @ '' ('' @ join '', '' (map fst firstRow) @ '') VALUES ''
            @ join '', ''
                (map (\<lambda>i. ''('' @ join '', ''
                         (map (\<lambda>j. ''$'' @ show_nat (i * length firstRow + j)) [1..<Suc (length firstRow)])
                       @ '')'') [0..<Suc (length rest)])
            @ (if b_returning b
               then '' RETURNING '' @ (if b_select b \<noteq> [] then join '', '' (b_select b) else ''*'')
               else []),
          concat (map (\<lambda>row. map (lookup row) (map fst firstRow)) (firstRow # rest)))"
proof -
  have d: "b_data b \<noteq> NoData"
    using assms(2) by auto
  show ?thesis
    using assms d
    by (simp add: toSQL_plain_def bindRows_eq returningCols_def del: upt_Suc)
qed

text \<open>
  Claim C4 as stated appends \<open>RETURNING *\<close> whenever the returning flag is set.  The
  INSERT of \<open>src/query/builder.ts\<close> appends \<open>RETURNING\<close> and the projection: after
  \<open>select('id', 'a')\<close> and \<open>insert({a: 1})\<close> the flag is set and the statement ends in
  \<open>RETURNING id, a\<close>.
\<close>

theorem insert_returning_counterexample:
  "b_returning (insert_op (Row [(''a'', JNum 1)]) (select_op [''id'', ''a''] (new_builder ''t'')))
   \<and> toSQL_plain (insert_op (Row [(''a'', JNum 1)]) (select_op [''id'', ''a''] (new_builder ''t'')))
       = Inr (''INSERT INTO t (a) VALUES ($1) RETURNING id, a'', [JNum 1])
   \<and> toSQL_plain (insert_op (Row [(''a'', JNum 1)]) (select_op [''id'', ''a''] (new_builder ''t'')))
       \<noteq> Inr (''INSERT INTO t (a) VALUES ($1) RETURNING *'', [JNum 1])"
  by code_simp

text \<open>
  Claim C4, as amended.  An INSERT whose payload has a first record with at least one
  key compiles, in both revisions, to \<open>INSERT INTO\<close>, the table, the parenthesised list
  of the first record's keys in its own order, \<open>VALUES\<close> and one parenthesised tuple per
  record; the tuple of record \<open>i\<close> (from 0) holds the placeholders numbered \<open>i * n + 1\<close>
  to \<open>i * n + n\<close> for \<open>n\<close> keys, and the values are, record after record, the record's
  entries under the first record's keys in key order.  When the returning flag is set,
  which \<open>insert\<close> always does, the revision with joins and quoting appends
  \<open>RETURNING *\<close>, and \<open>src/query/builder.ts\<close> appends \<open>RETURNING\<close> followed by the
  selected projection, which is \<open>*\<close> when no column was selected.  The later revision
  passes table and keys through \<open>_quote\<close> and requires that there be no join; the
  earlier one renders them as they are.
\<close>

theorem insert_rendering:
  "(b_operation b = INSERT \<and> b_joins b = [] \<and> dataIn (b_data b) = firstRow # rest \<and> firstRow \<noteq> [] \<longrightarrow>
      toSQL b =
        Inr (''INSERT INTO '' @ quote (b_table b)
               @ '' ('' @ join '', '' (map quote (map fst firstRow)) @ '') VALUES ''
               @ join '', ''
                   (map (\<lambda>i. ''('' @ join '', ''
                            (map (\<lambda>j. ''$'' @ show_nat (i * length firstRow + j)) [1..<Suc (length firstRow)])
                          @ '')'') [0..<Suc (length rest)])
               @ (if b_returning b then '' RETURNING *'' else []),
             concat (map (\<lambda>row. map (lookup row) (map fst firstRow)) (firstRow # rest))))
   \<and> (b_operation b = INSERT \<and> dataIn (b_data b) = firstRow # rest \<and> firstRow \<noteq> [] \<longrightarrow>
      toSQL_plain b =
        Inr (''INSERT INTO '' @ b_table b
               @ '' ('' @ join '', '' (map fst firstRow) @ '') VALUES ''
               @ join '', ''
                   (map (\<lambda>i. ''('' @ join '', ''
                            (map (\<lambda>j. ''$'' @ show_nat (i * length firstRow + j)) [1..<Suc (length firstRow)])
                          @ '')'') [0..<Suc (length rest)])
               @ (if b_returning b
                  then '' RETURNING '' @ (if b_select b \<noteq> [] then join '', '' (b_select b) else ''*'')
                  else []),
             concat (map (\<lambda>row. map (lookup row) (map fst firstRow)) (firstRow # rest))))
   \<and> b_operation (insert_op d b0) = INSERT \<and> b_returning (insert_op d b0)
   \<and> b_select (insert_op d b0) = b_select b0"
proof (intro conjI impI)
  show "b_operation (insert_op d b0) = INSERT"
    by (simp add: insert_op_def)
  show "b_returning (insert_op d b0)"
    by (simp add: insert_op_def)
  show "b_select (insert_op d b0) = b_select b0"
    by (simp add: insert_op_def)
qed (use toSQL_insert_text plain_insert_text in blast)+

theorem insert_rendering_witness:
  "toSQL (insert_op (Rows [[(''a'', JNum 1), (''b'', JNum 2)], [(''a'', JNum 3), (''b'', JNum 4)]])
      (new_builder ''t''))
     = Inr (''INSERT INTO '' @ [dq] @ ''t'' @ [dq] @ '' ('' @ [dq] @ ''a'' @ [dq] @ '', '' @ [dq] @ ''b'' @ [dq]
              @ '') VALUES ($1, $2), ($3, $4) RETURNING *'',
            [JNum 1, JNum 2, JNum 3, JNum 4])
   \<and> toSQL_plain (insert_op (Rows [[(''a'', JNum 1), (''b'', JNum 2)], [(''a'', JNum 3), (''b'', JNum 4)]])
      (select_op [''id''] (new_builder ''t'')))
     = Inr (''INSERT INTO t (a, b) VALUES ($1, $2), ($3, $4) RETURNING id'',
            [JNum 1, JNum 2, JNum 3, JNum 4])"
proof -
  have a: "toSQL (insert_op (Rows [[(''a'', JNum 1), (''b'', JNum 2)], [(''a'', JNum 3), (''b'', JNum 4)]])
      (new_builder ''t''))
     = Inr (''INSERT INTO '' @ [dq] @ ''t'' @ [dq] @ '' ('' @ [dq] @ ''a'' @ [dq] @ '', '' @ [dq] @ ''b'' @ [dq]
              @ '') VALUES ($1, $2), ($3, $4) RETURNING *'',
            [JNum 1, JNum 2, JNum 3, JNum 4])"
    using insert_rendering [where b = "insert_op (Rows [[(''a'', JNum 1), (''b'', JNum 2)],
          [(''a'', JNum 3), (''b'', JNum 4)]]) (new_builder ''t'')"
        and firstRow = "[(''a'', JNum 1), (''b'', JNum 2)]"
        and rest = "[[(''a'', JNum 3), (''b'', JNum 4)]]", THEN conjunct1]
    by (simp add: insert_op_def new_builder_def quote_def startsWith_dq_def lookup_def
        show_nat.simps digit_def)
  have b: "toSQL_plain (insert_op (Rows [[(''a'', JNum 1), (''b'', JNum 2)], [(''a'', JNum 3), (''b'', JNum 4)]])
      (select_op [''id''] (new_builder ''t'')))
     = Inr (''INSERT INTO t (a, b) VALUES ($1, $2), ($3, $4) RETURNING id'',
            [JNum 1, JNum 2, JNum 3, JNum 4])"
    using insert_rendering [where b = "insert_op (Rows [[(''a'', JNum 1), (''b'', JNum 2)],
          [(''a'', JNum 3), (''b'', JNum 4)]]) (select_op [''id''] (new_builder ''t''))"
        and firstRow = "[(''a'', JNum 1), (''b'', JNum 2)]"
        and rest = "[[(''a'', JNum 3), (''b'', JNum 4)]]", THEN conjunct2, THEN conjunct1]
    by (simp add: insert_op_def select_op_def new_builder_def lookup_def show_nat.simps digit_def)
  show ?thesis by (intro conjI a b)
qed

lemma plain_insert_example:
  "toSQL_plain (insert_op (Rows [[(''a'', JNum 1), (''b'', JNum 2)], [(''a'', JNum 3), (''b'', JNum 4)]])
      (new_builder ''t''))
     = Inr (''INSERT INTO t (a, b) VALUES ($1, $2), ($3, $4) RETURNING *'',
            [JNum 1, JNum 2, JNum 3, JNum 4])"
  by code_simp

subsection \<open>Identifier quoting\<close>

lemma split_on_not_Nil: "split_on c s \<noteq> []"
  by (induction s) (auto split: list.splits)

lemma join_split_on: "join [c] (split_on c s) = s"
proof (induction s)
  case Nil
  show ?case by simp
next
  case (Cons x xs)
  obtain p ps where ps: "split_on c xs = p # ps"
    using split_on_not_Nil [of c xs] by (cases "split_on c xs") auto
  show ?case
    using Cons ps by (cases ps) (auto simp: join_Cons)
qed

lemma split_on_parts: "part \<in> set (split_on c s) \<Longrightarrow> c \<notin> set part"
proof (induction s arbitrary: part)
  case Nil
  then show ?case by simp
next
  case (Cons x xs)
  then show ?case
    by (auto split: if_splits list.splits)
qed

lemma split_on_absent: "c \<notin> set s \<Longrightarrow> split_on c s = [s]"
  by (induction s) auto

lemma quote_eq:
  "quote s =
     (if s = ''*'' \<or> CHR ''('' \<in> set s \<or> CHR '' '' \<in> set s \<or> startsWith_dq s then s
      else join ''.'' (map (\<lambda>part. [dq] @ part @ [dq]) (split_on CHR ''.'' s)))"
  by (simp add: quote_def split_on_absent)

lemma buildJoins_eq:
  "buildJoins js = concat (map (\<lambda>j. '' '' @ joinText (j_type j) @ '' JOIN '' @ quote (j_table j)
      @ '' ON '' @ quote (j_col1 j) @ '' '' @ j_op j @ '' '' @ quote (j_col2 j)) js)"
  by (cases js) (simp_all add: buildJoins_def join_Cons joinSQL_def comp_def)

lemma toSQL_select_text:
  assumes "b_operation b = SELECT"
  shows "toSQL b =
     Inr (''SELECT '' @ (if b_select b = [] then ''*'' else join '', '' (map quote (b_select b)))
            @ '' FROM '' @ quote (b_table b)
            @ concat (map (\<lambda>j. '' '' @ joinText (j_type j) @ '' JOIN '' @ quote (j_table j)
                @ '' ON '' @ quote (j_col1 j) @ '' '' @ j_op j @ '' '' @ quote (j_col2 j)) (b_joins b))
            @ fst (buildWhere quote (b_where b) []) @ limitSQL b,
          snd (buildWhere quote (b_where b) []))"
  using assms by (simp add: toSQL_def split_beta buildJoins_eq)

lemma setClauses_eq:
  "setClauses q keys d vs =
     (map2 (\<lambda>key i. q key @ '' = $'' @ show_nat (length vs + i)) keys [1..<Suc (length keys)],
      vs @ map (lookup d) keys)"
proof (induction keys arbitrary: vs)
  case Nil
  show ?case by simp
next
  case (Cons key keys)
  have u: "[Suc 0..<Suc (Suc (length keys))] = Suc 0 # map Suc [Suc 0..<Suc (length keys)]"
    by (simp add: upt_conv_Cons map_Suc_upt del: upt_Suc)
  show ?case
    by (simp add: Cons u placeholder_def zip_map2 split_def comp_def del: upt_Suc)
qed

lemma toSQL_update_text:
  assumes "b_operation b = UPDATE" and "b_joins b = []" and "b_data b \<noteq> NoData"
    and "dataEntries (b_data b) \<noteq> []"
  shows "toSQL b =
     Inr (''UPDATE '' @ quote (b_table b) @ '' SET ''
            @ join '', '' (map2 (\<lambda>key i. quote key @ '' = $'' @ show_nat i)
                (map fst (dataEntries (b_data b))) [1..<Suc (length (dataEntries (b_data b)))])
            @ fst (buildWhere quote (b_where b)
                (map (lookup (dataEntries (b_data b))) (map fst (dataEntries (b_data b)))))
            @ (if b_returning b then '' RETURNING *'' else []),
          snd (buildWhere quote (b_where b)
                (map (lookup (dataEntries (b_data b))) (map fst (dataEntries (b_data b))))))"
  using assms by (simp add: toSQL_def split_beta returningAll_def setClauses_eq del: upt_Suc)

lemma toSQL_delete_text:
  assumes "b_operation b = DELETE" and "b_joins b = []"
  shows "toSQL b =
     Inr (''DELETE FROM '' @ quote (b_table b) @ fst (buildWhere quote (b_where b) [])
            @ (if b_returning b then '' RETURNING *'' else []),
          snd (buildWhere quote (b_where b) []))"
  using assms by (simp add: toSQL_def split_beta returningAll_def)

lemma condition_column:
  assumes "\<not> ((c_operator c = IN \<or> c_operator c = NOT_IN) \<and> \<not> isNonEmptyArray (c_value c))"
  shows "\<exists>operand. fst (condition q c vs) = q (c_column c) @ '' '' @ opText (c_operator c) @ '' '' @ operand"
  using assms by (auto simp: condition_def Let_def split_beta)

lemma plain_select_text:
  assumes "b_operation b = SELECT"
  shows "toSQL_plain b =
     Inr (''SELECT '' @ (if b_select b = [] then ''*'' else join '', '' (b_select b))
            @ '' FROM '' @ b_table b
            @ fst (buildWhere (\<lambda>c. c) (b_where b) []) @ limitSQL b,
          snd (buildWhere (\<lambda>c. c) (b_where b) []))"
  using assms by (simp add: toSQL_plain_def split_beta)

lemma plain_update_text:
  assumes "b_operation b = UPDATE" and "b_data b \<noteq> NoData" and "dataEntries (b_data b) \<noteq> []"
  shows "toSQL_plain b =
     Inr (''UPDATE '' @ b_table b @ '' SET ''
            @ join '', '' (map2 (\<lambda>key i. key @ '' = $'' @ show_nat i)
                (map fst (dataEntries (b_data b))) [1..<Suc (length (dataEntries (b_data b)))])
            @ fst (buildWhere (\<lambda>c. c) (b_where b)
                (map (lookup (dataEntries (b_data b))) (map fst (dataEntries (b_data b)))))
            @ (if b_returning b
               then '' RETURNING '' @ (if b_select b = [] then ''*'' else join '', '' (b_select b))
               else []),
          snd (buildWhere (\<lambda>c. c) (b_where b)
                (map (lookup (dataEntries (b_data b))) (map fst (dataEntries (b_data b))))))"
  using assms by (simp add: toSQL_plain_def split_beta returningCols_def setClauses_eq del: upt_Suc)

lemma plain_delete_text:
  assumes "b_operation b = DELETE"
  shows "toSQL_plain b =
     Inr (''DELETE FROM '' @ b_table b @ fst (buildWhere (\<lambda>c. c) (b_where b) [])
            @ (if b_returning b
               then '' RETURNING '' @ (if b_select b = [] then ''*'' else join '', '' (b_select b))
               else []),
          snd (buildWhere (\<lambda>c. c) (b_where b) []))"
  using assms by (simp add: toSQL_plain_def split_beta returningCols_def)

lemma plain_insert_columns:
  assumes "b_operation b = INSERT" and "dataIn (b_data b) = firstRow # rest" and "firstRow \<noteq> []"
  shows "\<exists>tuples values. toSQL_plain b =
     Inr (''INSERT INTO '' @ b_table b @ '' ('' @ join '', '' (map fst firstRow) @ '') VALUES '' @ tuples,
          values)"
  using plain_insert_text [OF assms] by blast

text \<open>
  Claim C5 as stated has every identifier double-quoted, and leaves every identifier
  with a parenthesis untouched.  \<open>_quote\<close> tests for the opening parenthesis only: an
  identifier whose only parenthesis is a closing one is quoted like a plain name.  And
  \<open>toSQL\<close> of \<open>src/query/builder.ts\<close>, which the claim cites, has no \<open>_quote\<close>: it
  renders table, projection and filter column as they are given.
\<close>

theorem identifier_quoting_counterexample:
  "quote ''a)'' = [dq] @ ''a)'' @ [dq] \<and> quote ''a)'' \<noteq> ''a)''
   \<and> toSQL_plain (where_op [(''name'', JStr ''Al'')] (select_op [''id''] (new_builder ''users'')))
       = Inr (''SELECT id FROM users WHERE name = $1'', [JStr ''Al''])"
proof -
  have a: "quote ''a)'' = [dq] @ ''a)'' @ [dq]"
    by (simp add: quote_def startsWith_dq_def)
  have b: "quote ''a)'' \<noteq> ''a)''"
    by (simp add: quote_def startsWith_dq_def)
  have c: "toSQL_plain (where_op [(''name'', JStr ''Al'')] (select_op [''id''] (new_builder ''users'')))
       = Inr (''SELECT id FROM users WHERE name = $1'', [JStr ''Al''])"
    by code_simp
  show ?thesis by (intro conjI a b c)
qed

text \<open>
  Claim C5, as amended.  In the revision that has \<open>_quote\<close>: \<open>_quote\<close> returns the
  identifier as it is when it is \<open>*\<close>, contains an opening parenthesis or a space, or
  starts with a double quote; otherwise it wraps each dot-separated segment in double
  quotes and rejoins the segments with dots (the segments are dot-free and rejoin to the
  identifier; a name without a dot is one segment).  \<open>toSQL\<close> of that revision passes
  through \<open>_quote\<close> the table of every statement, the projected columns, the table and
  both columns of every join, the insert column names, the update keys, and the column
  of every filter clause that renders its column.  \<open>toSQL\<close> of \<open>src/query/builder.ts\<close>
  quotes nothing: table, projected columns, insert column names, update keys and filter
  columns appear in the text exactly as given.
\<close>

theorem identifier_quoting:
  "quote s =
     (if s = ''*'' \<or> CHR ''('' \<in> set s \<or> CHR '' '' \<in> set s \<or> startsWith_dq s then s
      else join ''.'' (map (\<lambda>part. [dq] @ part @ [dq]) (split_on CHR ''.'' s)))
   \<and> join ''.'' (split_on CHR ''.'' s) = s
   \<and> (\<forall>part \<in> set (split_on CHR ''.'' s). CHR ''.'' \<notin> set part)
   \<and> (b_operation b = SELECT \<longrightarrow>
        toSQL b =
          Inr (''SELECT '' @ (if b_select b = [] then ''*'' else join '', '' (map quote (b_select b)))
                 @ '' FROM '' @ quote (b_table b)
                 @ concat (map (\<lambda>j. '' '' @ joinText (j_type j) @ '' JOIN '' @ quote (j_table j)
                     @ '' ON '' @ quote (j_col1 j) @ '' '' @ j_op j @ '' '' @ quote (j_col2 j)) (b_joins b))
                 @ fst (buildWhere quote (b_where b) []) @ limitSQL b,
               snd (buildWhere quote (b_where b) [])))
   \<and> (b_operation b = INSERT \<and> b_joins b = [] \<and> dataIn (b_data b) = firstRow # rest \<and> firstRow \<noteq> [] \<longrightarrow>
        toSQL b =
          Inr (''INSERT INTO '' @ quote (b_table b)
                 @ '' ('' @ join '', '' (map quote (map fst firstRow)) @ '') VALUES ''
                 @ join '', ''
                     (map (\<lambda>i. ''('' @ join '', ''
                              (map (\<lambda>j. ''$'' @ show_nat (i * length firstRow + j)) [1..<Suc (length firstRow)])
                            @ '')'') [0..<Suc (length rest)])
                 @ (if b_returning b then '' RETURNING *'' else []),
               concat (map (\<lambda>row. map (lookup row) (map fst firstRow)) (firstRow # rest))))
   \<and> (b_operation b = UPDATE \<and> b_joins b = [] \<and> b_data b \<noteq> NoData \<and> dataEntries (b_data b) \<noteq> [] \<longrightarrow>
        toSQL b =
          Inr (''UPDATE '' @ quote (b_table b) @ '' SET ''
                 @ join '', '' (map2 (\<lambda>key i. quote key @ '' = $'' @ show_nat i)
                     (map fst (dataEntries (b_data b))) [1..<Suc (length (dataEntries (b_data b)))])
                 @ fst (buildWhere quote (b_where b)
                     (map (lookup (dataEntries (b_data b))) (map fst (dataEntries (b_data b)))))
                 @ (if b_returning b then '' RETURNING *'' else []),
               snd (buildWhere quote (b_where b)
                     (map (lookup (dataEntries (b_data b))) (map fst (dataEntries (b_data b)))))))
   \<and> (b_operation b = DELETE \<and> b_joins b = [] \<longrightarrow>
        toSQL b =
          Inr (''DELETE FROM '' @ quote (b_table b) @ fst (buildWhere quote (b_where b) [])
                 @ (if b_returning b then '' RETURNING *'' else []),
               snd (buildWhere quote (b_where b) [])))
   \<and> (\<not> ((c_operator c = IN \<or> c_operator c = NOT_IN) \<and> \<not> isNonEmptyArray (c_value c)) \<longrightarrow>
        (\<exists>operand. fst (condition quote c vs)
           = quote (c_column c) @ '' '' @ opText (c_operator c) @ '' '' @ operand))
   \<and> (b_operation b = SELECT \<longrightarrow>
        toSQL_plain b =
          Inr (''SELECT '' @ (if b_select b = [] then ''*'' else join '', '' (b_select b))
                 @ '' FROM '' @ b_table b
                 @ fst (buildWhere (\<lambda>c. c) (b_where b) []) @ limitSQL b,
               snd (buildWhere (\<lambda>c. c) (b_where b) [])))
   \<and> (b_operation b = INSERT \<and> dataIn (b_data b) = firstRow # rest \<and> firstRow \<noteq> [] \<longrightarrow>
        (\<exists>tuples values. toSQL_plain b =
          Inr (''INSERT INTO '' @ b_table b @ '' ('' @ join '', '' (map fst firstRow) @ '') VALUES ''
                 @ tuples, values)))
   \<and> (b_operation b = UPDATE \<and> b_data b \<noteq> NoData \<and> dataEntries (b_data b) \<noteq> [] \<longrightarrow>
        toSQL_plain b =
          Inr (''UPDATE '' @ b_table b @ '' SET ''
                 @ join '', '' (map2 (\<lambda>key i. key @ '' = $'' @ show_nat i)
                     (map fst (dataEntries (b_data b))) [1..<Suc (length (dataEntries (b_data b)))])
                 @ fst (buildWhere (\<lambda>c. c) (b_where b)
                     (map (lookup (dataEntries (b_data b))) (map fst (dataEntries (b_data b)))))
                 @ (if b_returning b
                    then '' RETURNING '' @ (if b_select b = [] then ''*'' else join '', '' (b_select b))
                    else []),
               snd (buildWhere (\<lambda>c. c) (b_where b)
                     (map (lookup (dataEntries (b_data b))) (map fst (dataEntries (b_data b)))))))
   \<and> (b_operation b = DELETE \<longrightarrow>
        toSQL_plain b =
          Inr (''DELETE FROM '' @ b_table b @ fst (buildWhere (\<lambda>c. c) (b_where b) [])
                 @ (if b_returning b
                    then '' RETURNING '' @ (if b_select b = [] then ''*'' else join '', '' (b_select b))
                    else []),
               snd (buildWhere (\<lambda>c. c) (b_where b) [])))
   \<and> (\<not> ((c_operator c = IN \<or> c_operator c = NOT_IN) \<and> \<not> isNonEmptyArray (c_value c)) \<longrightarrow>
        (\<exists>operand. fst (condition (\<lambda>c. c) c vs)
           = c_column c @ '' '' @ opText (c_operator c) @ '' '' @ operand))"
proof (intro conjI impI ballI)
  show "quote s =
     (if s = ''*'' \<or> CHR ''('' \<in> set s \<or> CHR '' '' \<in> set s \<or> startsWith_dq s then s
      else join ''.'' (map (\<lambda>part. [dq] @ part @ [dq]) (split_on CHR ''.'' s)))"
    by (rule quote_eq)
  show "join ''.'' (split_on CHR ''.'' s) = s"
    by (rule join_split_on)
  show "CHR ''.'' \<notin> set part" if "part \<in> set (split_on CHR ''.'' s)" for part
    using that by (rule split_on_parts)
  show "\<exists>operand. fst (condition (\<lambda>c. c) c vs)
           = c_column c @ '' '' @ opText (c_operator c) @ '' '' @ operand"
    if "\<not> ((c_operator c = IN \<or> c_operator c = NOT_IN) \<and> \<not> isNonEmptyArray (c_value c))"
    using condition_column [OF that, of "\<lambda>c. c" vs] by simp
qed (use toSQL_select_text toSQL_insert_text toSQL_update_text toSQL_delete_text condition_column
      plain_select_text plain_insert_columns plain_update_text plain_delete_text in blast)+

theorem identifier_quoting_witness:
  "quote ''users.id'' = [dq] @ ''users'' @ [dq] @ ''.'' @ [dq] @ ''id'' @ [dq]
   \<and> quote ''name'' = [dq] @ ''name'' @ [dq]
   \<and> quote ''COUNT(id)'' = ''COUNT(id)''
   \<and> quote ''*'' = ''*''
   \<and> toSQL (addJoin INNER ''posts'' ''users.id'' ''='' ''posts.user_id''
        (select_op [''users.name''] (new_builder ''users'')))
       = Inr (''SELECT '' @ [dq] @ ''users'' @ [dq] @ ''.'' @ [dq] @ ''name'' @ [dq]
                @ '' FROM '' @ [dq] @ ''users'' @ [dq]
                @ '' INNER JOIN '' @ [dq] @ ''posts'' @ [dq]
                @ '' ON '' @ [dq] @ ''users'' @ [dq] @ ''.'' @ [dq] @ ''id'' @ [dq]
                @ '' = '' @ [dq] @ ''posts'' @ [dq] @ ''.'' @ [dq] @ ''user_id'' @ [dq], [])
   \<and> toSQL_plain (select_op [''users.name''] (new_builder ''users''))
       = Inr (''SELECT users.name FROM users'', [])"
proof -
  have a: "quote ''users.id'' = [dq] @ ''users'' @ [dq] @ ''.'' @ [dq] @ ''id'' @ [dq]"
    using identifier_quoting [where s = "''users.id''", THEN conjunct1]
    by (simp add: startsWith_dq_def)
  have b: "quote ''name'' = [dq] @ ''name'' @ [dq]"
    using identifier_quoting [where s = "''name''", THEN conjunct1]
    by (simp add: startsWith_dq_def)
  have c: "quote ''COUNT(id)'' = ''COUNT(id)''"
    using identifier_quoting [where s = "''COUNT(id)''", THEN conjunct1]
    by simp
  have d: "quote ''*'' = ''*''"
    using identifier_quoting [where s = "''*''", THEN conjunct1]
    by simp
  have e: "toSQL (addJoin INNER ''posts'' ''users.id'' ''='' ''posts.user_id''
        (select_op [''users.name''] (new_builder ''users'')))
       = Inr (''SELECT '' @ [dq] @ ''users'' @ [dq] @ ''.'' @ [dq] @ ''name'' @ [dq]
                @ '' FROM '' @ [dq] @ ''users'' @ [dq]
                @ '' INNER JOIN '' @ [dq] @ ''posts'' @ [dq]
                @ '' ON '' @ [dq] @ ''users'' @ [dq] @ ''.'' @ [dq] @ ''id'' @ [dq]
                @ '' = '' @ [dq] @ ''posts'' @ [dq] @ ''.'' @ [dq] @ ''user_id'' @ [dq], [])"
    using identifier_quoting [where b = "addJoin INNER ''posts'' ''users.id'' ''='' ''posts.user_id''
        (select_op [''users.name''] (new_builder ''users''))",
        THEN conjunct2, THEN conjunct2, THEN conjunct2, THEN conjunct1]
    by (simp add: addJoin_def select_op_def new_builder_def quote_def startsWith_dq_def
        buildWhere_def limitSQL_def)
  have f: "toSQL_plain (select_op [''users.name''] (new_builder ''users''))
       = Inr (''SELECT users.name FROM users'', [])"
    using identifier_quoting [where b = "select_op [''users.name''] (new_builder ''users'')",
        THEN conjunct2, THEN conjunct2, THEN conjunct2, THEN conjunct2, THEN conjunct2,
        THEN conjunct2, THEN conjunct2, THEN conjunct2, THEN conjunct1]
    by (simp add: select_op_def new_builder_def buildWhere_def limitSQL_def)
  show ?thesis by (intro conjI a b c d e f)
qed

subsection \<open>The traced compiler refines the compiler and numbers its placeholders\<close>

lemma render_append: "render (xs @ ys) = render xs @ render ys"
  by (simp add: render_def)

lemma render_Cons: "render (p # ps) = renderPiece p @ render ps"
  by (simp add: render_def)

lemma render_Nil: "render [] = []"
  by (simp add: render_def)

lemma render_join: "render (join sep pss) = join (render sep) (map render pss)"
  by (induction sep pss rule: join.induct) (simp_all add: render_append render_Nil)

lemma params_append: "params (xs @ ys) = params xs @ params ys"
  by (induction xs rule: params.induct) simp_all

lemma params_join_Lit: "params (join [Lit s] pss) = concat (map params pss)"
  by (induction "[Lit s]" pss rule: join.induct) (simp_all add: params_append)

lemma numbered_Nil: "numbered n [] = []"
  by (simp add: numbered_def)

lemma numbered_Cons: "numbered n (x # xs) = (Suc n, x) # numbered (Suc n) xs"
  by (simp add: numbered_def upt_conv_Cons del: upt_Suc)

lemma numbered_append: "numbered n (xs @ ys) = numbered n xs @ numbered (n + length xs) ys"
  by (induction xs arbitrary: n) (simp_all add: numbered_Nil numbered_Cons)

lemma numbered_zero: "numbered 0 xs = zip [1..<Suc (length xs)] xs"
  by (simp add: numbered_def)

lemma bindAll_trace_snd: "snd (bindAll_trace xs vs) = vs @ xs"
  by (induction xs arbitrary: vs) (simp_all add: split_beta Let_def)

lemma bindAll_snd: "snd (bindAll xs vs) = vs @ xs"
  by (simp add: bindAll_eq)

lemma bindAll_trace_render: "map render (fst (bindAll_trace xs vs)) = fst (bindAll xs vs)"
  by (induction xs arbitrary: vs)
    (simp_all add: split_beta Let_def render_Cons render_Nil placeholder_def)

lemma bindAll_trace_params: "concat (map params (fst (bindAll_trace xs vs))) = numbered (length vs) xs"
  by (induction xs arbitrary: vs)
    (simp_all add: split_beta Let_def numbered_Nil numbered_Cons)

lemma condition_trace_snd: "snd (condition_trace q c vs) = vs @ clauseValues c"
  by (simp add: condition_trace_def clauseValues_def Let_def split_beta bindAll_trace_snd)

lemma condition_trace_render: "render (fst (condition_trace q c vs)) = fst (condition q c vs)"
  by (simp add: condition_trace_def condition_def Let_def split_beta render_append render_Cons
      render_Nil render_join bindAll_trace_render placeholder_def)

lemma condition_trace_params:
  "params (fst (condition_trace q c vs)) = numbered (length vs) (clauseValues c)"
  by (simp add: condition_trace_def clauseValues_def Let_def split_beta params_append
      params_join_Lit bindAll_trace_params numbered_Nil numbered_Cons)

lemma renderClauses_trace_snd:
  "snd (renderClauses_trace q i cs vs) = vs @ concat (map clauseValues cs)"
  by (induction cs arbitrary: i vs) (simp_all add: split_beta Let_def condition_trace_snd)

lemma renderClauses_trace_render:
  "map render (fst (renderClauses_trace q i cs vs)) = fst (renderClauses q i cs vs)"
  by (induction cs arbitrary: i vs)
    (simp_all add: split_beta Let_def condition_trace_snd condition_values condition_trace_render
      render_Cons)

lemma renderClauses_trace_params:
  "concat (map params (fst (renderClauses_trace q i cs vs)))
     = numbered (length vs) (concat (map clauseValues cs))"
  by (induction cs arbitrary: i vs)
    (simp_all add: split_beta Let_def condition_trace_snd condition_trace_params numbered_Nil
      numbered_append)

lemma buildWhere_trace_snd: "snd (buildWhere_trace q cs vs) = vs @ concat (map clauseValues cs)"
  by (simp add: buildWhere_trace_def split_beta Let_def renderClauses_trace_snd)

lemma buildWhere_trace_render: "render (fst (buildWhere_trace q cs vs)) = fst (buildWhere q cs vs)"
  by (simp add: buildWhere_trace_def buildWhere_def split_beta Let_def render_Cons render_Nil
      render_join renderClauses_trace_render)

lemma buildWhere_trace_params:
  "params (fst (buildWhere_trace q cs vs)) = numbered (length vs) (concat (map clauseValues cs))"
  by (simp add: buildWhere_trace_def split_beta Let_def params_join_Lit renderClauses_trace_params
      numbered_Nil)

lemma bindRows_trace_snd:
  "snd (bindRows_trace keys rows vs) = vs @ concat (map (\<lambda>row. map (lookup row) keys) rows)"
  by (induction rows arbitrary: vs) (simp_all add: split_beta Let_def bindAll_trace_snd)

lemma bindRows_snd:
  "snd (bindRows keys rows vs) = vs @ concat (map (\<lambda>row. map (lookup row) keys) rows)"
  by (simp add: bindRows_eq)

lemma bindRows_trace_render:
  "map render (fst (bindRows_trace keys rows vs)) = fst (bindRows keys rows vs)"
  by (induction rows arbitrary: vs)
    (simp_all add: split_beta Let_def bindAll_trace_snd bindAll_snd render_append render_Cons render_Nil
      render_join bindAll_trace_render)

lemma bindRows_trace_params:
  "concat (map params (fst (bindRows_trace keys rows vs)))
     = numbered (length vs) (concat (map (\<lambda>row. map (lookup row) keys) rows))"
  by (induction rows arbitrary: vs)
    (simp_all add: split_beta Let_def bindAll_trace_snd params_append params_join_Lit
      bindAll_trace_params numbered_Nil numbered_append)

lemma setClauses_trace_snd: "snd (setClauses_trace q keys d vs) = vs @ map (lookup d) keys"
  by (induction keys arbitrary: vs) (simp_all add: split_beta Let_def)

lemma setClauses_trace_render:
  "map render (fst (setClauses_trace q keys d vs)) = fst (setClauses q keys d vs)"
  by (induction keys arbitrary: vs)
    (simp_all add: split_beta Let_def render_Cons render_Nil placeholder_def)

lemma setClauses_trace_params:
  "concat (map params (fst (setClauses_trace q keys d vs))) = numbered (length vs) (map (lookup d) keys)"
  by (induction keys arbitrary: vs)
    (simp_all add: split_beta Let_def numbered_Nil numbered_Cons)

lemma setClauses_snd: "snd (setClauses q keys d vs) = vs @ map (lookup d) keys"
  by (simp add: setClauses_eq del: upt_Suc)

lemmas trace_render = render_append render_Cons render_Nil render_join buildWhere_trace_render
  bindRows_trace_render setClauses_trace_render

lemmas trace_snd = buildWhere_trace_snd buildWhere_values bindRows_trace_snd bindRows_snd
  setClauses_trace_snd setClauses_snd

lemmas trace_params = params_append params_join_Lit buildWhere_trace_params bindRows_trace_params
  setClauses_trace_params numbered_Nil

lemma toSQL_trace_refines:
  "map_sum id (\<lambda>(ps, vs). (render ps, vs)) (toSQL_trace b) = toSQL b"
proof (cases "b_operation b")
  case SELECT
  then show ?thesis
    by (simp add: toSQL_trace_def toSQL_def split_beta Let_def trace_render trace_snd)
next
  case INSERT
  then show ?thesis
    by (simp add: toSQL_trace_def toSQL_def split_beta Let_def trace_render trace_snd split: list.splits)
next
  case UPDATE
  then show ?thesis
    by (simp add: toSQL_trace_def toSQL_def split_beta Let_def trace_render trace_snd)
next
  case DELETE
  then show ?thesis
    by (simp add: toSQL_trace_def toSQL_def split_beta Let_def trace_render trace_snd)
qed

lemma toSQL_plain_trace_refines:
  "map_sum id (\<lambda>(ps, vs). (render ps, vs)) (toSQL_plain_trace b) = toSQL_plain b"
proof (cases "b_operation b")
  case SELECT
  then show ?thesis
    by (simp add: toSQL_plain_trace_def toSQL_plain_def split_beta Let_def trace_render trace_snd)
next
  case INSERT
  then show ?thesis
    by (simp add: toSQL_plain_trace_def toSQL_plain_def split_beta Let_def trace_render trace_snd
        split: list.splits)
next
  case UPDATE
  then show ?thesis
    by (simp add: toSQL_plain_trace_def toSQL_plain_def split_beta Let_def trace_render trace_snd)
next
  case DELETE
  then show ?thesis
    by (simp add: toSQL_plain_trace_def toSQL_plain_def split_beta Let_def trace_render trace_snd)
qed

lemma toSQL_trace_params:
  assumes "toSQL_trace b = Inr (ps, vs)"
  shows "params ps = numbered 0 vs"
proof (cases "b_operation b")
  case SELECT
  then show ?thesis
    using assms by (auto simp: toSQL_trace_def split_beta Let_def trace_params trace_snd)
next
  case INSERT
  then show ?thesis
    using assms
    by (auto simp: toSQL_trace_def split_beta Let_def trace_params trace_snd
        simp del: bindRows_trace.simps split: if_splits list.splits)
next
  case UPDATE
  then show ?thesis
    using assms
    by (auto simp: toSQL_trace_def split_beta Let_def trace_params trace_snd numbered_append split: if_splits)
next
  case DELETE
  then show ?thesis
    using assms by (auto simp: toSQL_trace_def split_beta Let_def trace_params trace_snd split: if_splits)
qed

lemma toSQL_plain_trace_params:
  assumes "toSQL_plain_trace b = Inr (ps, vs)"
  shows "params ps = numbered 0 vs"
proof (cases "b_operation b")
  case SELECT
  then show ?thesis
    using assms by (auto simp: toSQL_plain_trace_def split_beta Let_def trace_params trace_snd)
next
  case INSERT
  then show ?thesis
    using assms
    by (auto simp: toSQL_plain_trace_def split_beta Let_def trace_params trace_snd
        simp del: bindRows_trace.simps split: if_splits list.splits)
next
  case UPDATE
  then show ?thesis
    using assms
    by (auto simp: toSQL_plain_trace_def split_beta Let_def trace_params trace_snd numbered_append
        split: if_splits)
next
  case DELETE
  then show ?thesis
    using assms by (auto simp: toSQL_plain_trace_def split_beta Let_def trace_params trace_snd split: if_splits)
qed

lemma map_sum_Inr_result:
  assumes "map_sum id (\<lambda>(ps, vs). (render ps, vs)) t = Inr (sql, vs)"
  shows "\<exists>ps. t = Inr (ps, vs) \<and> render ps = sql"
  using assms by (cases t) auto

text \<open>
  Claim C1.  Whenever \<open>toSQL\<close> returns a text with its values, the traced compiler
  returns the same values with pieces that render to that text, and the placeholders
  among the pieces are, in order of occurrence, numbered 1, 2, ... up to the number of
  values, the placeholder numbered \<open>k\<close> being the one emitted for the push of the value
  at position \<open>k - 1\<close>.  The numbering runs through the whole statement: the SET clause
  of an UPDATE and the filter that follows share one counter.  This holds for both
  revisions.
\<close>

theorem placeholders_numbered:
  "(toSQL b = Inr (sql, vs) \<longrightarrow>
      (\<exists>ps. toSQL_trace b = Inr (ps, vs) \<and> render ps = sql
            \<and> length (params ps) = length vs
            \<and> params ps = zip [1..<Suc (length vs)] vs))
   \<and> (toSQL_plain b = Inr (sql, vs) \<longrightarrow>
      (\<exists>ps. toSQL_plain_trace b = Inr (ps, vs) \<and> render ps = sql
            \<and> length (params ps) = length vs
            \<and> params ps = zip [1..<Suc (length vs)] vs))"
proof (intro conjI impI)
  assume "toSQL b = Inr (sql, vs)"
  then have "map_sum id (\<lambda>(ps, vs). (render ps, vs)) (toSQL_trace b) = Inr (sql, vs)"
    by (simp only: toSQL_trace_refines)
  from map_sum_Inr_result [OF this]
  obtain ps where ps: "toSQL_trace b = Inr (ps, vs)" "render ps = sql"
    by (elim exE conjE)
  have z: "params ps = zip [1..<Suc (length vs)] vs"
    using toSQL_trace_params [OF ps(1)] by (simp only: numbered_zero)
  have n: "length (params ps) = length vs"
    by (simp add: z del: upt_Suc)
  from ps n z show "\<exists>ps. toSQL_trace b = Inr (ps, vs) \<and> render ps = sql
            \<and> length (params ps) = length vs
            \<and> params ps = zip [1..<Suc (length vs)] vs"
    by (intro exI [of _ ps] conjI)
next
  assume "toSQL_plain b = Inr (sql, vs)"
  then have "map_sum id (\<lambda>(ps, vs). (render ps, vs)) (toSQL_plain_trace b) = Inr (sql, vs)"
    by (simp only: toSQL_plain_trace_refines)
  from map_sum_Inr_result [OF this]
  obtain ps where ps: "toSQL_plain_trace b = Inr (ps, vs)" "render ps = sql"
    by (elim exE conjE)
  have z: "params ps = zip [1..<Suc (length vs)] vs"
    using toSQL_plain_trace_params [OF ps(1)] by (simp only: numbered_zero)
  have n: "length (params ps) = length vs"
    by (simp add: z del: upt_Suc)
  from ps n z show "\<exists>ps. toSQL_plain_trace b = Inr (ps, vs) \<and> render ps = sql
            \<and> length (params ps) = length vs
            \<and> params ps = zip [1..<Suc (length vs)] vs"
    by (intro exI [of _ ps] conjI)
qed

theorem placeholders_numbered_witness:
  "\<exists>ps. toSQL_plain_trace (where_op [(''id'', JObj [(''in'', JArr [JNum 7, JNum 8])])]
            (update_op (Row [(''a'', JBool True)]) (new_builder ''t''))) = Inr (ps, [JBool True, JNum 7, JNum 8])
        \<and> render ps = ''UPDATE t SET a = $1 WHERE id IN ($2, $3) RETURNING *''
        \<and> length (params ps) = 3
        \<and> params ps = [(1, JBool True), (2, JNum 7), (3, JNum 8)]"
proof -
  have h: "toSQL_plain (where_op [(''id'', JObj [(''in'', JArr [JNum 7, JNum 8])])]
            (update_op (Row [(''a'', JBool True)]) (new_builder ''t'')))
         = Inr (''UPDATE t SET a = $1 WHERE id IN ($2, $3) RETURNING *'', [JBool True, JNum 7, JNum 8])"
    by code_simp
  have z: "zip [1..<Suc (length [JBool True, JNum 7, JNum 8])] [JBool True, JNum 7, JNum 8]
      = [(1, JBool True), (2, JNum 7), (3, JNum 8)]"
    by code_simp
  have n: "length [JBool True, JNum 7, JNum 8] = 3"
    by simp
  note t = placeholders_numbered [of "where_op [(''id'', JObj [(''in'', JArr [JNum 7, JNum 8])])]
            (update_op (Row [(''a'', JBool True)]) (new_builder ''t''))"
        "''UPDATE t SET a = $1 WHERE id IN ($2, $3) RETURNING *''" "[JBool True, JNum 7, JNum 8]",
        THEN conjunct2, THEN mp, OF h]
  note t' = t [unfolded z]
  show ?thesis
    using t' unfolding n .
qed

subsection \<open>Repeated compilation\<close>

lemma bindAll_st_eq:
  "bindAll_st xs s = (fst (bindAll xs (f_values s)), s\<lparr> f_values := f_values s @ xs \<rparr>)"
  by (induction xs arbitrary: s) (simp_all add: split_beta Let_def push_values_def)

lemma condition_st_eq:
  "condition_st q c s = (fst (condition q c (f_values s)), s\<lparr> f_values := f_values s @ clauseValues c \<rparr>)"
  by (simp add: condition_st_def condition_def clauseValues_def split_beta Let_def push_values_def
      bindAll_st_eq)

lemma renderClauses_st_eq:
  "renderClauses_st q i cs s =
     (fst (renderClauses q i cs (f_values s)),
      s\<lparr> f_values := f_values s @ concat (map clauseValues cs) \<rparr>)"
  by (induction cs arbitrary: i s)
    (simp_all add: split_beta Let_def condition_st_eq condition_values)

lemma buildWhere_st_eq:
  "buildWhere_st q s =
     (fst (buildWhere q (b_where (f_this s)) (f_values s)),
      s\<lparr> f_values := snd (buildWhere q (b_where (f_this s)) (f_values s)) \<rparr>)"
  by (simp add: buildWhere_st_def buildWhere_def split_beta Let_def renderClauses_st_eq
      renderClauses_values)

lemma bindKeys_st_eq:
  "bindKeys_st keys row s =
     s\<lparr> f_values := f_values s @ map (lookup row) keys,
        f_rowPlaceholders := f_rowPlaceholders s @ fst (bindAll (map (lookup row) keys) (f_values s)) \<rparr>"
  by (induction keys arbitrary: s) (simp_all add: split_beta Let_def push_values_def)

lemma bindRows_st_this: "f_this (bindRows_st keys rows s) = f_this s"
  by (induction rows arbitrary: s) (simp_all add: Let_def bindKeys_st_eq)

lemma bindRows_st_sql: "f_sql (bindRows_st keys rows s) = f_sql s"
  by (induction rows arbitrary: s) (simp_all add: Let_def bindKeys_st_eq)

lemma bindRows_st_values: "f_values (bindRows_st keys rows s) = snd (bindRows keys rows (f_values s))"
  by (induction rows arbitrary: s) (simp_all add: Let_def split_beta bindKeys_st_eq bindAll_snd)

lemma bindRows_st_placeHolders:
  "f_placeHolders (bindRows_st keys rows s) = f_placeHolders s @ fst (bindRows keys rows (f_values s))"
  by (induction rows arbitrary: s) (simp_all add: Let_def split_beta bindKeys_st_eq bindAll_snd)

lemma setClauses_st_eq:
  "setClauses_st q keys s =
     (fst (setClauses q keys (dataEntries (b_data (f_this s))) (f_values s)),
      s\<lparr> f_values := f_values s @ map (lookup (dataEntries (b_data (f_this s)))) keys \<rparr>)"
  by (induction keys arbitrary: s) (simp_all add: split_beta Let_def push_values_def)

lemma limit_st_eq: "limit_st s = s\<lparr> f_sql := f_sql s @ limitSQL (f_this s) \<rparr>"
  by (simp add: limit_st_def limitSQL_def append_sql_def Let_def split: option.splits)

lemma returning_st_eq:
  "returning_st columns s = s\<lparr> f_sql := f_sql s @ returningCols (f_this s) columns \<rparr>"
  by (simp add: returning_st_def returningCols_def append_sql_def)

lemma returningAll_Cols: "returningAll b = returningCols b ''*''"
  by (simp add: returningAll_def returningCols_def)

lemmas st_eqs = buildWhere_st_eq setClauses_st_eq limit_st_eq returning_st_eq append_sql_def
  bindRows_st_this bindRows_st_sql bindRows_st_values bindRows_st_placeHolders

lemma toSQL_body_this: "f_this (snd (toSQL_body s)) = f_this s"
proof (cases "b_operation (f_this s)")
  case SELECT
  then show ?thesis
    by (simp add: toSQL_body_def split_beta Let_def st_eqs)
next
  case INSERT
  then show ?thesis
    by (simp add: toSQL_body_def split_beta Let_def st_eqs del: bindRows_st.simps
        split: list.splits)
next
  case UPDATE
  then show ?thesis
    by (simp add: toSQL_body_def split_beta Let_def st_eqs)
next
  case DELETE
  then show ?thesis
    by (simp add: toSQL_body_def split_beta Let_def st_eqs)
qed

lemma toSQL_body_result: "fst (toSQL_body s) = toSQL (f_this s)"
proof (cases "b_operation (f_this s)")
  case SELECT
  then show ?thesis
    by (simp add: toSQL_body_def toSQL_def split_beta Let_def st_eqs)
next
  case INSERT
  then show ?thesis
    by (simp add: toSQL_body_def toSQL_def split_beta Let_def st_eqs returningAll_Cols
        del: bindRows_st.simps bindRows.simps split: list.splits)
next
  case UPDATE
  then show ?thesis
    by (simp add: toSQL_body_def toSQL_def split_beta Let_def st_eqs returningAll_Cols setClauses_snd)
next
  case DELETE
  then show ?thesis
    by (simp add: toSQL_body_def toSQL_def split_beta Let_def st_eqs returningAll_Cols)
qed

lemma toSQL_plain_body_this: "f_this (snd (toSQL_plain_body s)) = f_this s"
proof (cases "b_operation (f_this s)")
  case SELECT
  then show ?thesis
    by (simp add: toSQL_plain_body_def split_beta Let_def st_eqs)
next
  case INSERT
  then show ?thesis
    by (simp add: toSQL_plain_body_def split_beta Let_def st_eqs del: bindRows_st.simps
        split: list.splits)
next
  case UPDATE
  then show ?thesis
    by (simp add: toSQL_plain_body_def split_beta Let_def st_eqs)
next
  case DELETE
  then show ?thesis
    by (simp add: toSQL_plain_body_def split_beta Let_def st_eqs)
qed

lemma toSQL_plain_body_result: "fst (toSQL_plain_body s) = toSQL_plain (f_this s)"
proof (cases "b_operation (f_this s)")
  case SELECT
  then show ?thesis
    by (simp add: toSQL_plain_body_def toSQL_plain_def split_beta Let_def st_eqs)
next
  case INSERT
  then show ?thesis
    by (simp add: toSQL_plain_body_def toSQL_plain_def split_beta Let_def st_eqs
        del: bindRows_st.simps bindRows.simps split: list.splits)
next
  case UPDATE
  then show ?thesis
    by (simp add: toSQL_plain_body_def toSQL_plain_def split_beta Let_def st_eqs setClauses_snd)
next
  case DELETE
  then show ?thesis
    by (simp add: toSQL_plain_body_def toSQL_plain_def split_beta Let_def st_eqs)
qed

text \<open>
  Claim C9.  Running the body of \<open>toSQL\<close> from any state of the builder and of the
  call's variables leaves the builder as it was: each of its assignments and pushes goes
  to \<open>values\<close>, \<open>sql\<close>, \<open>placeHolders\<close> or \<open>rowPlaceholders\<close>.  Its outcome depends on
  the builder alone, since \<open>values\<close> and \<open>sql\<close> are set afresh at entry; so a second run,
  even from the state the first one left, has the same outcome: the same text and the
  same values, or the same error.  For a call this means: the builder after the call is
  the builder before it, and calling again returns the same outcome.  This holds for both
  revisions.
\<close>

theorem toSQL_idempotent:
  "f_this (snd (toSQL_body s)) = f_this s
   \<and> fst (toSQL_body (snd (toSQL_body s))) = fst (toSQL_body s)
   \<and> fst (toSQL_body s) = toSQL (f_this s)
   \<and> snd (toSQL_call b) = b
   \<and> toSQL_call (snd (toSQL_call b)) = toSQL_call b
   \<and> fst (toSQL_call b) = toSQL b
   \<and> f_this (snd (toSQL_plain_body s)) = f_this s
   \<and> fst (toSQL_plain_body (snd (toSQL_plain_body s))) = fst (toSQL_plain_body s)
   \<and> fst (toSQL_plain_body s) = toSQL_plain (f_this s)
   \<and> snd (toSQL_plain_call b) = b
   \<and> toSQL_plain_call (snd (toSQL_plain_call b)) = toSQL_plain_call b
   \<and> fst (toSQL_plain_call b) = toSQL_plain b"
  by (simp add: toSQL_body_this toSQL_body_result toSQL_plain_body_this toSQL_plain_body_result
      toSQL_call_def toSQL_plain_call_def enter_def)

theorem toSQL_idempotent_witness:
  "toSQL_plain_call (snd (toSQL_plain_call
      (where_op [(''id'', JNum 123)] (update_op (Row [(''isActive'', JBool False)]) (new_builder ''users'')))))
     = (Inr (''UPDATE users SET isActive = $1 WHERE id = $2 RETURNING *'', [JBool False, JNum 123]),
        where_op [(''id'', JNum 123)] (update_op (Row [(''isActive'', JBool False)]) (new_builder ''users'')))"
proof -
  have h: "toSQL_plain
      (where_op [(''id'', JNum 123)] (update_op (Row [(''isActive'', JBool False)]) (new_builder ''users'')))
     = Inr (''UPDATE users SET isActive = $1 WHERE id = $2 RETURNING *'', [JBool False, JNum 123])"
    by code_simp
  note t = toSQL_idempotent [where b = "where_op [(''id'', JNum 123)]
      (update_op (Row [(''isActive'', JBool False)]) (new_builder ''users''))"]
  note t9 = t [THEN conjunct2, THEN conjunct2, THEN conjunct2, THEN conjunct2, THEN conjunct2,
      THEN conjunct2, THEN conjunct2, THEN conjunct2, THEN conjunct2]
  note again = t9 [THEN conjunct2, THEN conjunct1]
  note state = t9 [THEN conjunct1]
  note outcome = t9 [THEN conjunct2, THEN conjunct2]
  show ?thesis
    unfolding again
    by (rule prod_eqI) (simp_all only: fst_conv snd_conv state outcome h)
qed

end
